theory Spec2Isabelle
  imports Complex_Main "HOL-Library.Product_Lexorder"
begin

section \<open>Python values used by the predictors\<close>

text \<open>
  The prediction engine lives in \<^verbatim>\<open>ml-service/app/models/predictor.py\<close> (class
  \<^verbatim>\<open>CropPredictor\<close>) and in \<^verbatim>\<open>ml-service/app/models/predictor_v3.py\<close> (class
  \<^verbatim>\<open>CropPredictorV3\<close>). Python numbers (ints and floats read from JSON) are modelled
  as \<^typ>\<open>real\<close>: arithmetic is exact, there is no NaN and no binary rounding error.
  Strings are \<^typ>\<open>string\<close>.
\<close>

text \<open>
  \<^verbatim>\<open>round(x, n)\<close> rounds to \<open>n\<close> decimals, a tie going to the even neighbour.
\<close>

definition round_half_even :: "real \<Rightarrow> int" where
  "round_half_even x =
     (let f = \<lfloor>x\<rfloor>; d = x - of_int f
      in if d < 1 / 2 then f else if 1 / 2 < d then f + 1 else if even f then f else f + 1)"

definition py_round :: "nat \<Rightarrow> real \<Rightarrow> real" where
  "py_round n x = of_int (round_half_even (x * 10 ^ n)) / 10 ^ n"

text \<open>\<^verbatim>\<open>str.upper()\<close> on the ASCII letters.\<close>

definition char_upper :: "char \<Rightarrow> char" where
  "char_upper c =
     (if (97::nat) \<le> of_char c \<and> of_char c \<le> (122::nat)
      then char_of (of_char c - (32::nat)) else c)"

definition upper :: "string \<Rightarrow> string" where
  "upper s = map char_upper s"

text \<open>\<^verbatim>\<open>k.startswith(p)\<close>.\<close>

fun startswith :: "string \<Rightarrow> string \<Rightarrow> bool" where
  "startswith k [] = True"
| "startswith [] (p # ps) = False"
| "startswith (c # k) (p # ps) = (c = p \<and> startswith k ps)"

text \<open>\<^verbatim>\<open>xs.index(x)\<close>, called only under \<^verbatim>\<open>x in xs\<close>.\<close>

fun index_of :: "'a list \<Rightarrow> 'a \<Rightarrow> nat" where
  "index_of [] x = 0"
| "index_of (y # ys) x = (if y = x then 0 else Suc (index_of ys x))"

text \<open>
  \<^verbatim>\<open>xs.sort(key=k, reverse=True)\<close> is stable and descending: elements with equal keys
  keep their relative order. That is the stable ascending sort on the negated key. The
  key \<^verbatim>\<open>(is_season_match, score)\<close> is a tuple, compared lexicographically.
\<close>

definition sort_desc :: "('a \<Rightarrow> real) \<Rightarrow> 'a list \<Rightarrow> 'a list" where
  "sort_desc k xs = sort_key (\<lambda>x. - k x) xs"

definition sort_desc2 :: "('a \<Rightarrow> bool \<times> real) \<Rightarrow> 'a list \<Rightarrow> 'a list" where
  "sort_desc2 k xs = sort_key (\<lambda>x. (\<not> fst (k x), - snd (k x))) xs"

text \<open>
  A Python \<^verbatim>\<open>set\<close> of strings iterates in the order of its hash table, which is fixed
  within one process and differs between processes (string hashing is seeded). The
  process is represented by a rank \<open>h\<close> on strings; a set built from a list iterates
  over its distinct elements by increasing rank. Every order of the elements of one set
  is the order of some \<open>h\<close>.
\<close>

definition py_set :: "(string \<Rightarrow> nat) \<Rightarrow> string list \<Rightarrow> string list" where
  "py_set h xs = sort_key h (remdups xs)"

section \<open>Class tables\<close>

definition CROP_TEMP_RANGES :: "(string \<times> real \<times> real) list" where
  "CROP_TEMP_RANGES =
     [(''CEREALS_WHEAT'', (10, 25)),
      (''CEREALS_RICE'', (20, 35)),
      (''CEREALS_MAIZE'', (18, 32)),
      (''CEREALS_BARLEY'', (8, 22)),
      (''CEREALS_MILLETS'', (25, 40)),
      (''PULSES'', (15, 30)),
      (''OILSEEDS'', (20, 35)),
      (''SUGARCANE'', (20, 35)),
      (''COTTON'', (21, 35)),
      (''JUTE'', (24, 37)),
      (''TOBACCO'', (18, 28)),
      (''VEGETABLES'', (15, 30)),
      (''FRUITS'', (15, 35)),
      (''SPICES'', (20, 35)),
      (''PLANTATION'', (20, 30)),
      (''FIBER'', (25, 35))]"

definition DEFAULT_SEASON_CROPS :: "(string \<times> string list) list" where
  "DEFAULT_SEASON_CROPS =
     [(''KHARIF'', [''CEREALS_RICE'', ''CEREALS_MAIZE'', ''CEREALS_MILLETS'', ''PULSES'',
                    ''OILSEEDS'', ''COTTON'', ''JUTE'', ''SUGARCANE'', ''VEGETABLES'',
                    ''FRUITS'']),
      (''RABI'', [''CEREALS_WHEAT'', ''CEREALS_BARLEY'', ''PULSES'', ''OILSEEDS'',
                  ''VEGETABLES'', ''SPICES'', ''TOBACCO'']),
      (''SUMMER'', [''CEREALS_MAIZE'', ''CEREALS_MILLETS'', ''PULSES'', ''VEGETABLES'',
                    ''FRUITS'', ''OILSEEDS'']),
      (''WINTER'', [''CEREALS_WHEAT'', ''CEREALS_BARLEY'', ''VEGETABLES'', ''SPICES'',
                    ''OILSEEDS'', ''PULSES'']),
      (''AUTUMN'', [''CEREALS_RICE'', ''PULSES'', ''VEGETABLES'', ''OILSEEDS'',
                    ''CEREALS_MAIZE'']),
      (''WHOLE YEAR'', [''SUGARCANE'', ''VEGETABLES'', ''FRUITS'', ''PLANTATION'',
                        ''SPICES'', ''FIBER''])]"

text \<open>
  The table \<^verbatim>\<open>default_yields\<close>, written out three times in the source
  (\<^verbatim>\<open>_predict_yield_ml\<close>, \<^verbatim>\<open>_predict_with_rules\<close>, \<^verbatim>\<open>CropPredictorV3._predict_yield\<close>)
  with the same entries.
\<close>

definition default_yields :: "(string \<times> real) list" where
  "default_yields =
     [(''CEREALS_WHEAT'', 3500), (''CEREALS_RICE'', 3000), (''CEREALS_MAIZE'', 4000),
      (''CEREALS_BARLEY'', 2800), (''CEREALS_MILLETS'', 1500), (''PULSES'', 1200),
      (''OILSEEDS'', 1200), (''SUGARCANE'', 70000), (''COTTON'', 500),
      (''JUTE'', 2500), (''TOBACCO'', 1800), (''VEGETABLES'', 15000),
      (''FRUITS'', 10000), (''SPICES'', 2000), (''PLANTATION'', 5000), (''FIBER'', 1500)]"

section \<open>Temperature suitability\<close>

text \<open>
  \<^verbatim>\<open>_calculate_temp_suitability(crop, temperature)\<close>, the same text in both classes.
\<close>

definition calculate_temp_suitability :: "string \<Rightarrow> real \<Rightarrow> real" where
  "calculate_temp_suitability crop temperature =
     (case map_of CROP_TEMP_RANGES crop of
        None \<Rightarrow> 0.7
      | Some (temp_min, temp_max) \<Rightarrow>
          (let optimal_temp = (temp_min + temp_max) / 2
           in if temp_min \<le> temperature \<and> temperature \<le> temp_max
              then (let distance = \<bar>temperature - optimal_temp\<bar> / ((temp_max - temp_min) / 2)
                    in 1.0 - distance * 0.2)
              else if temperature < temp_min
              then (let deficit = temp_min - temperature in max 0.2 (0.8 - deficit * 0.05))
              else (let excess = temperature - temp_max in max 0.2 (0.8 - excess * 0.05))))"

section \<open>Data model of \<^verbatim>\<open>CropPredictor\<close> (predictor.py)\<close>

text \<open>
  The feature dictionary of a prediction call. Each recognised key is absent (\<open>None\<close>)
  or holds a value of its type: a string for the location and the season, a number for
  the readings. \<^verbatim>\<open>features.get(k, d)\<close> is \<open>dict_get d\<close> of the field.
\<close>

record features =
  state :: "string option"
  district :: "string option"
  season :: "string option"
  avg_temperature :: "real option"
  avg_humidity :: "real option"
  soil_moisture :: "real option"
  soil_nitrogen :: "real option"
  soil_phosphorus :: "real option"
  soil_potassium :: "real option"
  soil_zn :: "real option"
  soil_fe :: "real option"
  soil_cu :: "real option"
  soil_mn :: "real option"
  soil_b :: "real option"
  soil_s :: "real option"

definition dict_get :: "'a \<Rightarrow> 'a option \<Rightarrow> 'a" where
  "dict_get d v = (case v of None \<Rightarrow> d | Some x \<Rightarrow> x)"

text \<open>The truth value of the dictionary (\<^verbatim>\<open>if features:\<close>): it has a key.\<close>

definition features_truthy :: "features \<Rightarrow> bool" where
  "features_truthy f =
     (state f \<noteq> None \<or> district f \<noteq> None \<or> season f \<noteq> None \<or> avg_temperature f \<noteq> None
      \<or> avg_humidity f \<noteq> None \<or> soil_moisture f \<noteq> None \<or> soil_nitrogen f \<noteq> None
      \<or> soil_phosphorus f \<noteq> None \<or> soil_potassium f \<noteq> None \<or> soil_zn f \<noteq> None
      \<or> soil_fe f \<noteq> None \<or> soil_cu f \<noteq> None \<or> soil_mn f \<noteq> None \<or> soil_b f \<noteq> None
      \<or> soil_s f \<noteq> None)"

text \<open>
  JSON documents are association lists in file order (a Python dict iterates in insertion
  order). A historical record and a crop profile map field names to numbers.
\<close>

type_synonym hist = "(string \<times> real) list"

type_synonym district_table = "(string \<times> (string \<times> hist) list) list"

type_synonym profile_table = "(string \<times> (string \<times> hist) list) list"

type_synonym season_map = "(string \<times> (string \<times> string list) list) list"

record encoders =
  state_classes :: "string list option"
  district_classes :: "string list option"
  season_classes :: "string list option"
  crop_classes :: "string list option"

datatype version = V1 | V2 | V3

datatype error = AttributeError | KeyError | ModelError

text \<open>
  The attributes of a \<^verbatim>\<open>CropPredictor\<close> after \<^verbatim>\<open>_load_models\<close>. Every branch of the
  loader (the handler of its \<^verbatim>\<open>try\<close> included) sets \<^verbatim>\<open>encoders\<close>, \<^verbatim>\<open>crop_profiles\<close>,
  \<^verbatim>\<open>district_profiles\<close>, \<^verbatim>\<open>use_ml_model\<close> and \<^verbatim>\<open>model_version\<close>; the pickled objects
  and \<^verbatim>\<open>season_crop_map\<close> may be left unset (\<open>None\<close>). The classifier, the scaler and
  the regressor are opaque: a call returns a value or raises (\<open>None\<close>), and
  \<^verbatim>\<open>predict_proba(x)[0]\<close> is the list of class probabilities.
\<close>

record predictor =
  classifier :: "(real list \<Rightarrow> real list option) option"
  scaler :: "(real list \<Rightarrow> real list option) option"
  yield_regressor :: "(real list \<Rightarrow> real option) option"
  encoders :: encoders
  season_crop_map :: "season_map option"
  crop_profiles :: profile_table
  district_profiles :: district_table
  use_ml_model :: bool
  model_version :: "version option"

record yield_prediction =
  yield_min :: real
  yield_max :: real
  expected :: real
  yield_unit :: string

record env_factors =
  soilMatch :: real
  npkMatch :: real
  weatherMatch :: real
  historicalYield :: real

text \<open>
  A recommendation. The \<^verbatim>\<open>explanation\<close> text is built from the same values and read by
  no other field; it is left out. \<^verbatim>\<open>CropPredictorV3\<close> writes no
  \<^verbatim>\<open>temperatureSuitability\<close> key.
\<close>

record recommendation =
  cropName :: string
  suitabilityScore :: real
  yieldPrediction :: yield_prediction
  environmentalFactors :: env_factors
  seasonMatch :: bool
  temperatureSuitability :: "real option"

text \<open>An entry of \<^verbatim>\<open>all_scores\<close> (its \<^verbatim>\<open>idx\<close> and \<^verbatim>\<open>prob\<close> entries are never read).\<close>

record scored =
  crop_name :: string
  score :: real
  is_season_match :: bool
  temp_suitability :: real

section \<open>The model directory and \<^verbatim>\<open>_load_models\<close>\<close>

text \<open>
  A file of the model directory: absent, present but failing to load (a truncated pickle,
  malformed JSON), or present with its content. \<^verbatim>\<open>os.path.exists\<close> is true of the last
  two; \<^verbatim>\<open>open\<close> followed by \<^verbatim>\<open>load\<close> returns the content of the last and raises on the
  others.
\<close>

datatype 'a disk_file = Absent | Unreadable | Stored 'a

definition file_exists :: "'a disk_file \<Rightarrow> bool" where
  "file_exists x = (case x of Absent \<Rightarrow> False | Unreadable \<Rightarrow> True | Stored c \<Rightarrow> True)"

definition load_file :: "'a disk_file \<Rightarrow> 'a option" where
  "load_file x = (case x of Absent \<Rightarrow> None | Unreadable \<Rightarrow> None | Stored c \<Rightarrow> Some c)"

text \<open>\<^verbatim>\<open>if os.path.exists(path): x = load(path) else: x = {}\<close>.\<close>

definition load_if_exists :: "'a disk_file \<Rightarrow> 'a \<Rightarrow> 'a option" where
  "load_if_exists x d = (if file_exists x then load_file x else Some d)"

text \<open>
  The files either loader looks at. The crop profile files of the v1 and v2 formats are
  loaded and never read afterwards.
\<close>

record model_dir =
  crop_classifier_v3_pkl :: "(real list \<Rightarrow> real list option) disk_file"
  scaler_v3_pkl :: "(real list \<Rightarrow> real list option) disk_file"
  encoders_v3_json :: "encoders disk_file"
  season_crop_map_v3_json :: "season_map disk_file"
  crop_profiles_v3_json :: "profile_table disk_file"
  crop_classifier_v2_pkl :: "(real list \<Rightarrow> real list option) disk_file"
  yield_regressor_v2_pkl :: "(real list \<Rightarrow> real option) disk_file"
  scaler_v2_pkl :: "(real list \<Rightarrow> real list option) disk_file"
  encoders_v2_json :: "encoders disk_file"
  crop_profiles_v2_json :: "profile_table disk_file"
  district_profiles_v2_json :: "district_table disk_file"
  crop_classifier_pkl :: "(real list \<Rightarrow> real list option) disk_file"
  yield_regressor_pkl :: "(real list \<Rightarrow> real option) disk_file"
  scaler_pkl :: "(real list \<Rightarrow> real list option) disk_file"
  encoders_json :: "encoders disk_file"
  crop_profiles_json :: "profile_table disk_file"
  district_profiles_json :: "district_table disk_file"

definition empty_model_dir :: model_dir where
  "empty_model_dir =
     \<lparr>crop_classifier_v3_pkl = Absent, scaler_v3_pkl = Absent, encoders_v3_json = Absent,
      season_crop_map_v3_json = Absent, crop_profiles_v3_json = Absent,
      crop_classifier_v2_pkl = Absent, yield_regressor_v2_pkl = Absent, scaler_v2_pkl = Absent,
      encoders_v2_json = Absent, crop_profiles_v2_json = Absent,
      district_profiles_v2_json = Absent,
      crop_classifier_pkl = Absent, yield_regressor_pkl = Absent, scaler_pkl = Absent,
      encoders_json = Absent, crop_profiles_json = Absent, district_profiles_json = Absent\<rparr>"

text \<open>
  The statements of a \<^verbatim>\<open>try\<close> block run in order on the object; the first that raises
  ends the block and keeps the assignments made so far.
\<close>

fun run_steps :: "('s \<Rightarrow> 's option) list \<Rightarrow> 's \<Rightarrow> bool \<times> 's" where
  "run_steps [] s = (True, s)"
| "run_steps (st # sts) s = (case st s of None \<Rightarrow> (False, s) | Some s' \<Rightarrow> run_steps sts s')"

definition empty_encoders :: encoders where
  "empty_encoders =
     \<lparr>state_classes = Some [], district_classes = Some [], season_classes = None,
      crop_classes = Some []\<rparr>"

text \<open>
  \<^verbatim>\<open>CropPredictor._load_models\<close>. The branch without a classifier file and the handler
  make the same assignments (\<open>rule_based\<close>), over whatever the \<^verbatim>\<open>try\<close> block had assigned.
\<close>

definition rule_based :: "predictor \<Rightarrow> predictor" where
  "rule_based s =
     s\<lparr>use_ml_model := False, model_version := None, crop_profiles := [],
       district_profiles := [], encoders := empty_encoders\<rparr>"

definition fresh_predictor :: predictor where
  "fresh_predictor =
     \<lparr>classifier = None, scaler = None, yield_regressor = None, encoders = empty_encoders,
      season_crop_map = None, crop_profiles = [], district_profiles = [],
      use_ml_model = False, model_version = None\<rparr>"

definition load_models :: "model_dir \<Rightarrow> predictor" where
  "load_models d =
     (case (if file_exists (crop_classifier_v3_pkl d)
            then run_steps
                   [\<lambda>s. map_option (\<lambda>c. s\<lparr>classifier := Some c\<rparr>) (load_file (crop_classifier_v3_pkl d)),
                    \<lambda>s. map_option (\<lambda>c. s\<lparr>scaler := Some c\<rparr>) (load_file (scaler_v3_pkl d)),
                    \<lambda>s. map_option (\<lambda>c. s\<lparr>encoders := c\<rparr>) (load_file (encoders_v3_json d)),
                    \<lambda>s. map_option (\<lambda>c. s\<lparr>season_crop_map := Some c\<rparr>)
                           (load_if_exists (season_crop_map_v3_json d) []),
                    \<lambda>s. map_option (\<lambda>c. s\<lparr>crop_profiles := c\<rparr>)
                           (load_if_exists (crop_profiles_v3_json d) []),
                    \<lambda>s. Some (s\<lparr>district_profiles := [], use_ml_model := True,
                                 model_version := Some V3\<rparr>)]
                   fresh_predictor
            else if file_exists (crop_classifier_v2_pkl d)
            then run_steps
                   [\<lambda>s. map_option (\<lambda>c. s\<lparr>classifier := Some c\<rparr>) (load_file (crop_classifier_v2_pkl d)),
                    \<lambda>s. map_option (\<lambda>c. s\<lparr>yield_regressor := Some c\<rparr>)
                           (load_file (yield_regressor_v2_pkl d)),
                    \<lambda>s. map_option (\<lambda>c. s\<lparr>scaler := Some c\<rparr>) (load_file (scaler_v2_pkl d)),
                    \<lambda>s. map_option (\<lambda>c. s\<lparr>encoders := c\<rparr>) (load_file (encoders_v2_json d)),
                    \<lambda>s. map_option (\<lambda>c. s\<lparr>crop_profiles := c\<rparr>) (load_file (crop_profiles_v2_json d)),
                    \<lambda>s. map_option (\<lambda>c. s\<lparr>district_profiles := c\<rparr>)
                           (load_file (district_profiles_v2_json d)),
                    \<lambda>s. Some (s\<lparr>use_ml_model := True, model_version := Some V2\<rparr>)]
                   fresh_predictor
            else if file_exists (crop_classifier_pkl d)
            then run_steps
                   [\<lambda>s. map_option (\<lambda>c. s\<lparr>classifier := Some c\<rparr>) (load_file (crop_classifier_pkl d)),
                    \<lambda>s. map_option (\<lambda>c. s\<lparr>yield_regressor := Some c\<rparr>)
                           (load_file (yield_regressor_pkl d)),
                    \<lambda>s. map_option (\<lambda>c. s\<lparr>scaler := Some c\<rparr>) (load_file (scaler_pkl d)),
                    \<lambda>s. map_option (\<lambda>c. s\<lparr>encoders := c\<rparr>) (load_file (encoders_json d)),
                    \<lambda>s. map_option (\<lambda>c. s\<lparr>crop_profiles := c\<rparr>) (load_file (crop_profiles_json d)),
                    \<lambda>s. map_option (\<lambda>c. s\<lparr>district_profiles := c\<rparr>)
                           (load_file (district_profiles_json d)),
                    \<lambda>s. Some (s\<lparr>use_ml_model := True, model_version := Some V1\<rparr>)]
                   fresh_predictor
            else (True, rule_based fresh_predictor)) of
        (True, s) \<Rightarrow> s
      | (False, s) \<Rightarrow> rule_based s)"

section \<open>Season affinity\<close>

text \<open>
  \<^verbatim>\<open>_get_crops_for_season\<close>: the exact \<^verbatim>\<open>STATE_DISTRICT\<close> key, then the first key of the
  season's map that starts with the state, then the default list of the season.
\<close>

definition default_crops :: "(string \<Rightarrow> nat) \<Rightarrow> string \<Rightarrow> string list" where
  "default_crops h season_u = py_set h (dict_get [] (map_of DEFAULT_SEASON_CROPS season_u))"

definition crops_from_map :: "(string \<Rightarrow> nat) \<Rightarrow> season_map \<Rightarrow> string \<Rightarrow> string \<Rightarrow> string \<Rightarrow> string list" where
  "crops_from_map h scm state_u district_u season_in =
     (let season_u = upper season_in
      in if scm = [] then default_crops h season_u
         else (let key = upper (state_u @ ''_'' @ district_u)
               in case map_of scm season_u of
                    None \<Rightarrow> default_crops h season_u
                  | Some m \<Rightarrow>
                      (case map_of m key of
                         Some cs \<Rightarrow> py_set h cs
                       | None \<Rightarrow>
                           (case find (\<lambda>kv. startswith (fst kv) (upper state_u)) m of
                              Some kv \<Rightarrow> py_set h (snd kv)
                            | None \<Rightarrow> default_crops h season_u))))"

definition get_crops_for_season :: "(string \<Rightarrow> nat) \<Rightarrow> predictor \<Rightarrow> string \<Rightarrow> string \<Rightarrow> string \<Rightarrow> string list" where
  "get_crops_for_season h p state_u district_u season_in =
     (case season_crop_map p of
        None \<Rightarrow> default_crops h (upper season_in)
      | Some scm \<Rightarrow> crops_from_map h scm state_u district_u season_in)"

section \<open>Encoder\<close>

definition encode :: "string list option \<Rightarrow> string \<Rightarrow> real" where
  "encode classes x =
     (if x \<in> set (dict_get [] classes) then real (index_of (dict_get [] classes) x) else 0)"

definition season_mapping :: "(string \<times> real) list" where
  "season_mapping =
     [(''KHARIF'', 0), (''RABI'', 1), (''WHOLE YEAR'', 2),
      (''SUMMER'', 3), (''WINTER'', 4), (''AUTUMN'', 5)]"

definition get_district_historical_data :: "predictor \<Rightarrow> string \<Rightarrow> string \<Rightarrow> string \<Rightarrow> hist option" where
  "get_district_historical_data p state_u district_u crop =
     (case map_of (district_profiles p) (state_u @ ''_'' @ district_u) of
        None \<Rightarrow> None
      | Some crops \<Rightarrow> map_of crops crop)"

definition prepare_features :: "predictor \<Rightarrow> features \<Rightarrow> real list" where
  "prepare_features p f =
     (let state_u = upper (dict_get [] (state f));
          district_u = upper (dict_get [] (district f));
          season_u = upper (dict_get ''KHARIF'' (season f));
          state_encoded = encode (state_classes (encoders p)) state_u;
          district_encoded = encode (district_classes (encoders p)) district_u;
          season_encoded =
            (case season_classes (encoders p) of
               Some cls \<Rightarrow> encode (Some cls) season_u
             | None \<Rightarrow> dict_get 0 (map_of season_mapping season_u));
          zn = dict_get 60.0 (soil_zn f);
          fe = dict_get 80.0 (soil_fe f);
          cu = dict_get 90.0 (soil_cu f);
          mn = dict_get 85.0 (soil_mn f);
          b = dict_get 70.0 (soil_b f);
          s = dict_get 75.0 (soil_s f);
          temperature = dict_get 28.0 (avg_temperature f);
          humidity = dict_get 60.0 (avg_humidity f);
          moisture = dict_get 45.0 (soil_moisture f);
          nitrogen = dict_get 100 (soil_nitrogen f);
          potassium = dict_get 150 (soil_potassium f);
          phosphorus = dict_get 20 (soil_phosphorus f)
      in if model_version p = Some V3
         then [state_encoded, district_encoded, season_encoded,
               zn, fe, cu, mn, b, s,
               2000.0, 1000.0,
               temperature, humidity, nitrogen, potassium, phosphorus]
         else if model_version p = Some V2
         then (let yield_mean =
                     (case map_of (district_profiles p) (state_u @ ''_'' @ district_u) of
                        None \<Rightarrow> 2000.0
                      | Some crops \<Rightarrow>
                          if crops \<noteq> []
                          then sum_list (map (\<lambda>c. dict_get 2000 (map_of (snd c) ''avg_yield'')) crops)
                                 / real (length crops)
                          else 2000.0)
               in [state_encoded, district_encoded, season_encoded,
                   zn, fe, cu, mn, b, s,
                   yield_mean, 1000.0,
                   temperature - 5, temperature + 5, temperature,
                   max 30 (humidity - 15), min 100 (humidity + 15), humidity,
                   moisture, nitrogen, potassium, phosphorus])
         else [season_encoded,
               zn, fe, cu, mn, b, s,
               temperature, humidity, moisture,
               nitrogen, potassium, phosphorus,
               state_encoded, district_encoded])"

section \<open>Scoring\<close>

text \<open>\<^verbatim>\<open>_calculate_suitability_score_ml(crop_idx, probabilities, features)\<close>.\<close>

definition prob_score_ml :: "predictor \<Rightarrow> real \<Rightarrow> real" where
  "prob_score_ml p prob =
     (if model_version p = Some V2 \<or> model_version p = Some V3
      then (if 0.3 \<le> prob then 65 + (prob - 0.3) * 50
            else if 0.15 \<le> prob then 50 + (prob - 0.15) * 100
            else if 0.05 \<le> prob then 30 + (prob - 0.05) * 200
            else prob * 600)
      else min 50 (prob * 500))"

definition calculate_suitability_score_ml :: "predictor \<Rightarrow> nat \<Rightarrow> real list \<Rightarrow> features \<Rightarrow> real" where
  "calculate_suitability_score_ml p crop_idx probabilities f =
     (let base_score = 30.0;
          base_score =
            (if crop_idx < length probabilities
             then base_score + prob_score_ml p (probabilities ! crop_idx)
             else base_score);
          base_score =
            (if features_truthy f
             then (let temp = dict_get 25 (avg_temperature f);
                       humidity = dict_get 60 (avg_humidity f);
                       base_score =
                         (if 20 \<le> temp \<and> temp \<le> 32 then base_score + 8
                          else if 15 \<le> temp \<and> temp \<le> 35 then base_score + 4
                          else base_score)
                   in if 50 \<le> humidity \<and> humidity \<le> 75 then base_score + 7
                      else if 40 \<le> humidity \<and> humidity \<le> 80 then base_score + 3
                      else base_score)
             else base_score)
      in min 100 (max 0 base_score))"

text \<open>\<^verbatim>\<open>_calculate_environmental_factors(features, historical)\<close>.\<close>

definition nutrient_points :: "real option \<Rightarrow> real" where
  "nutrient_points v =
     (let val = dict_get 50 v in if 50 \<le> val then 25 else if 30 \<le> val then 15 else 0)"

definition calculate_environmental_factors :: "features \<Rightarrow> hist option \<Rightarrow> env_factors" where
  "calculate_environmental_factors f historical =
     (let soil_score = nutrient_points (soil_zn f) + nutrient_points (soil_fe f)
                       + nutrient_points (soil_cu f) + nutrient_points (soil_mn f);
          nitrogen = dict_get 100 (soil_nitrogen f);
          phosphorus = dict_get 20 (soil_phosphorus f);
          potassium = dict_get 150 (soil_potassium f);
          npk_score = (if 50 \<le> nitrogen \<and> nitrogen \<le> 200 then 35 else 0)
                      + (if 10 \<le> phosphorus \<and> phosphorus \<le> 50 then 35 else 0)
                      + (if 80 \<le> potassium \<and> potassium \<le> 250 then 30 else 0);
          temp = dict_get 25 (avg_temperature f);
          humidity = dict_get 60 (avg_humidity f);
          weather_score = (if 20 \<le> temp \<and> temp \<le> 35 then 50 else 0)
                          + (if 40 \<le> humidity \<and> humidity \<le> 80 then 50 else 0);
          historical_score =
            (case historical of
               None \<Rightarrow> 70
             | Some h \<Rightarrow>
                 if h \<noteq> []
                 then (let std = dict_get 0 (map_of h ''std_yield'');
                           avg = dict_get 1 (map_of h ''avg_yield'')
                       in if 0 < avg then max 50 (min 100 (100 - (std / avg) * 100)) else 70)
                 else 70)
      in \<lparr>soilMatch = py_round 1 (min 100 soil_score),
          npkMatch = py_round 1 (min 100 npk_score),
          weatherMatch = py_round 1 (min 100 weather_score),
          historicalYield = py_round 1 historical_score\<rparr>)"

section \<open>Yield estimation\<close>

definition call_attr :: "('a \<Rightarrow> 'b option) option \<Rightarrow> 'a \<Rightarrow> error + 'b" where
  "call_attr m x =
     (case m of
        None \<Rightarrow> Inl AttributeError
      | Some g \<Rightarrow> (case g x of None \<Rightarrow> Inl ModelError | Some y \<Rightarrow> Inr y))"

definition safe_default_yield :: yield_prediction where
  "safe_default_yield =
     \<lparr>yield_min = 1000, yield_max = 3000, expected = 2000, yield_unit = ''kg/hectare''\<rparr>"

definition lookup_profile :: "profile_table \<Rightarrow> string \<Rightarrow> string \<Rightarrow> hist option" where
  "lookup_profile cp key crop = (case map_of cp key of None \<Rightarrow> None | Some m \<Rightarrow> map_of m crop)"

text \<open>The estimate from a crop profile (\<^verbatim>\<open>yield_mean\<close>, \<^verbatim>\<open>yield_std\<close>).\<close>

definition profile_yield :: "hist \<Rightarrow> real \<Rightarrow> yield_prediction" where
  "profile_yield profile temp_suit =
     (let yield_mean = dict_get 2000 (map_of profile ''yield_mean'');
          yield_std = dict_get 500 (map_of profile ''yield_std'');
          expected_y = yield_mean * temp_suit
      in \<lparr>yield_min = py_round 0 (max 100 (expected_y - yield_std)),
          yield_max = py_round 0 (expected_y + yield_std),
          expected = py_round 0 expected_y,
          yield_unit = ''kg/hectare''\<rparr>)"

text \<open>The estimate from the table of default yields.\<close>

definition table_yield :: "string \<Rightarrow> real \<Rightarrow> yield_prediction" where
  "table_yield crop temp_suit =
     (let base_yield = dict_get 2000 (map_of default_yields crop);
          expected_y = base_yield * temp_suit
      in \<lparr>yield_min = py_round 0 (expected_y * 0.7),
          yield_max = py_round 0 (expected_y * 1.3),
          expected = py_round 0 expected_y,
          yield_unit = ''kg/hectare''\<rparr>)"

text \<open>
  The regressor's estimate in tonnes per hectare, on the 20 yield features (v2) or on the
  scaled feature vector (v1). The field \<open>yield_regressor\<close> stands for the regressor
  followed by \<^verbatim>\<open>np.expm1\<close>: it returns \<^verbatim>\<open>predicted_yield\<close>, any number.
\<close>

definition model_yield :: "predictor \<Rightarrow> real list \<Rightarrow> string \<Rightarrow> features \<Rightarrow> error + real" where
  "model_yield p feature_vector crop f =
     (if model_version p = Some V2
      then (let crop_encoded = encode (crop_classes (encoders p)) crop;
                zn = dict_get 60.0 (soil_zn f);
                fe = dict_get 80.0 (soil_fe f);
                cu = dict_get 90.0 (soil_cu f);
                mn = dict_get 85.0 (soil_mn f);
                b = dict_get 70.0 (soil_b f);
                s = dict_get 75.0 (soil_s f);
                temperature = dict_get 28.0 (avg_temperature f);
                humidity = dict_get 60.0 (avg_humidity f);
                moisture = dict_get 45.0 (soil_moisture f);
                nitrogen = dict_get 100 (soil_nitrogen f);
                potassium = dict_get 150 (soil_potassium f);
                phosphorus = dict_get 20 (soil_phosphorus f);
                state_encoded = encode (state_classes (encoders p)) (upper (dict_get [] (state f)));
                district_encoded =
                  encode (district_classes (encoders p)) (upper (dict_get [] (district f)));
                season_encoded =
                  (case season_classes (encoders p) of
                     Some cls \<Rightarrow> encode (Some cls) (upper (dict_get ''KHARIF'' (season f)))
                   | None \<Rightarrow> 0);
                yield_features =
                  [state_encoded, district_encoded, season_encoded, crop_encoded,
                   zn, fe, cu, mn, b, s,
                   temperature - 5, temperature + 5, temperature,
                   max 30 (humidity - 15), min 100 (humidity + 15), humidity,
                   moisture, nitrogen, potassium, phosphorus]
            in case call_attr (yield_regressor p) yield_features of
                 Inl e \<Rightarrow> Inl e
               | Inr predicted_yield \<Rightarrow> Inr predicted_yield)
      else (case call_attr (scaler p) feature_vector of
              Inl e \<Rightarrow> Inl e
            | Inr scaled_features \<Rightarrow>
                (case call_attr (yield_regressor p) scaled_features of
                   Inl e \<Rightarrow> Inl e
                 | Inr predicted_yield \<Rightarrow> Inr predicted_yield)))"

text \<open>The blend with the district's history and the final bounds.\<close>

definition blend_yield :: "real \<Rightarrow> hist option \<Rightarrow> real \<times> real \<times> real" where
  "blend_yield predicted_yield historical =
     (let predicted_yield_kg = predicted_yield * 1000;
          unblended = (predicted_yield_kg, predicted_yield_kg * 0.8, predicted_yield_kg * 1.2)
      in case historical of
           None \<Rightarrow> unblended
         | Some h \<Rightarrow>
             if h \<noteq> []
             then (let hist_avg = dict_get predicted_yield (map_of h ''avg_yield'') * 1000;
                       hist_min = dict_get (predicted_yield * 0.7) (map_of h ''min_yield'') * 1000;
                       hist_max = dict_get (predicted_yield * 1.3) (map_of h ''max_yield'') * 1000
                   in (0.4 * predicted_yield_kg + 0.6 * hist_avg,
                       min (predicted_yield_kg * 0.8) hist_min,
                       max (predicted_yield_kg * 1.2) hist_max))
             else unblended)"

definition bounded_yield :: "real \<Rightarrow> hist option \<Rightarrow> yield_prediction" where
  "bounded_yield predicted_yield historical =
     (case blend_yield predicted_yield historical of
        (expected_0, min_0, max_0) \<Rightarrow>
          (let expected_y = max 100 expected_0;
               min_yield = max 50 min_0;
               max_yield = max (expected_y * 1.1) max_0
           in \<lparr>yield_min = py_round 0 min_yield,
               yield_max = py_round 0 max_yield,
               expected = py_round 0 expected_y,
               yield_unit = ''kg/hectare''\<rparr>))"

text \<open>
  \<^verbatim>\<open>_predict_yield_ml\<close>: the body of its \<^verbatim>\<open>try\<close>, then the function with its handler.
\<close>

definition predict_yield_ml_body :: "predictor \<Rightarrow> real list \<Rightarrow> string \<Rightarrow> features \<Rightarrow> error + yield_prediction" where
  "predict_yield_ml_body p feature_vector crop f =
     (let state_u = upper (dict_get [] (state f));
          district_u = upper (dict_get [] (district f));
          season_u = upper (dict_get ''KHARIF'' (season f));
          temperature = dict_get 28.0 (avg_temperature f)
      in if model_version p = Some V3
         then (case lookup_profile (crop_profiles p)
                      (upper (state_u @ ''_'' @ district_u @ ''_'' @ season_u)) crop of
                 Some profile \<Rightarrow>
                   Inr (profile_yield profile (calculate_temp_suitability crop temperature))
               | None \<Rightarrow> Inr (table_yield crop (calculate_temp_suitability crop temperature)))
         else (case model_yield p feature_vector crop f of
                 Inl e \<Rightarrow> Inl e
               | Inr predicted_yield \<Rightarrow>
                   Inr (bounded_yield predicted_yield
                          (get_district_historical_data p state_u district_u crop))))"

definition predict_yield_ml :: "predictor \<Rightarrow> real list \<Rightarrow> string \<Rightarrow> features \<Rightarrow> yield_prediction" where
  "predict_yield_ml p feature_vector crop f =
     (case predict_yield_ml_body p feature_vector crop f of
        Inr y \<Rightarrow> y
      | Inl e \<Rightarrow> safe_default_yield)"

section \<open>Prediction\<close>

text \<open>
  \<^verbatim>\<open>_predict_with_rules(features, season_crops)\<close>; \<^verbatim>\<open>predict\<close> always passes the season's
  set, so the \<^verbatim>\<open>None\<close> default of the parameter is never taken.
\<close>

definition rule_recommendation :: "features \<Rightarrow> real \<Rightarrow> string \<Rightarrow> recommendation" where
  "rule_recommendation f temperature c =
     (let temp_suit = calculate_temp_suitability c temperature;
          score_v = 50 + temp_suit * 40
      in \<lparr>cropName = c,
          suitabilityScore = py_round 1 score_v,
          yieldPrediction = table_yield c temp_suit,
          environmentalFactors = calculate_environmental_factors f None,
          seasonMatch = True,
          temperatureSuitability = Some (py_round 1 (temp_suit * 100))\<rparr>)"

definition predict_with_rules :: "features \<Rightarrow> string list \<Rightarrow> recommendation list" where
  "predict_with_rules f season_crops =
     (let temperature = dict_get 25 (avg_temperature f)
      in sort_desc suitabilityScore
           (map (rule_recommendation f temperature)
              (filter (\<lambda>c. \<not> 50 + calculate_temp_suitability c temperature * 40 < 30)
                 season_crops)))"

text \<open>The body of the scoring loop, for one class index.\<close>

definition score_candidate :: "predictor \<Rightarrow> real list \<Rightarrow> features \<Rightarrow> real \<Rightarrow> nat \<Rightarrow> string \<Rightarrow> bool \<Rightarrow> scored" where
  "score_candidate p probabilities f temperature idx c is_match =
     (let score_v = calculate_suitability_score_ml p idx probabilities f;
          temp_suit = calculate_temp_suitability c temperature;
          score_v = (if is_match then min 100 (score_v * 1.25) + temp_suit * 10
                     else score_v * 0.35);
          score_v = (if temp_suit < 0.5 then score_v * 0.8 else score_v)
      in \<lparr>crop_name = c, score = score_v, is_season_match = is_match,
          temp_suitability = temp_suit\<rparr>)"

definition all_scores :: "predictor \<Rightarrow> real list \<Rightarrow> features \<Rightarrow> real \<Rightarrow> string list \<Rightarrow> string list \<Rightarrow> scored list" where
  "all_scores p probabilities f temperature classes season_crops =
     map (\<lambda>idx. score_candidate p probabilities f temperature idx (classes ! idx)
                  (classes ! idx \<in> set season_crops))
       (filter (\<lambda>idx. \<not> length probabilities \<le> idx) [0..<length classes])"

definition build_recommendation :: "predictor \<Rightarrow> real list \<Rightarrow> features \<Rightarrow> string \<Rightarrow> string \<Rightarrow> scored \<Rightarrow> recommendation" where
  "build_recommendation p feature_vector f state_u district_u item =
     (let historical = get_district_historical_data p state_u district_u (crop_name item)
      in \<lparr>cropName = crop_name item,
          suitabilityScore = py_round 1 (score item),
          yieldPrediction = predict_yield_ml p feature_vector (crop_name item) f,
          environmentalFactors = calculate_environmental_factors f historical,
          seasonMatch = is_season_match item,
          temperatureSuitability = Some (py_round 1 (temp_suitability item * 100))\<rparr>)"

text \<open>The body of the \<^verbatim>\<open>try\<close> in \<^verbatim>\<open>predict\<close>: \<open>Inl\<close> when it raises.\<close>

definition ml_recommendations :: "predictor \<Rightarrow> features \<Rightarrow> string \<Rightarrow> string \<Rightarrow> real \<Rightarrow> string list \<Rightarrow> error + recommendation list" where
  "ml_recommendations p f state_u district_u temperature season_crops =
     (let feature_vector = prepare_features p f
      in case call_attr (scaler p) feature_vector of
           Inl e \<Rightarrow> Inl e
         | Inr scaled_features \<Rightarrow>
             (case call_attr (classifier p) scaled_features of
                Inl e \<Rightarrow> Inl e
              | Inr probabilities \<Rightarrow>
                  (case crop_classes (encoders p) of
                     None \<Rightarrow> Inl KeyError
                   | Some classes \<Rightarrow>
                       Inr (map (build_recommendation p feature_vector f state_u district_u)
                              (filter (\<lambda>item. \<not> score item < 30)
                                 (take 15
                                    (sort_desc2 (\<lambda>x. (is_season_match x, score x))
                                       (all_scores p probabilities f temperature classes
                                          season_crops))))))))"

text \<open>
  The supplement: \<^verbatim>\<open>existing_crops\<close> is computed once, before the loop that appends.
\<close>

definition supplement :: "nat \<Rightarrow> recommendation list \<Rightarrow> recommendation list \<Rightarrow> recommendation list" where
  "supplement n recommendations rule_recs =
     (let existing_crops = set (map cropName recommendations)
      in foldl (\<lambda>acc rec. if cropName rec \<notin> existing_crops \<and> length acc < n
                           then acc @ [rec] else acc)
           recommendations rule_recs)"

text \<open>
  \<^verbatim>\<open>predict(features)\<close>, in two parts. \<open>recommend\<close> is the function from the lookup of the
  season's crops to the end, on the local variables of the first lines; \<open>predict\<close> is the
  whole call. The dictionary is the caller's object and the call assigns to three of its
  keys, so \<open>predict\<close> returns the dictionary as the call leaves it, with the list.
\<close>

definition recommend :: "(string \<Rightarrow> nat) \<Rightarrow> predictor \<Rightarrow> features \<Rightarrow> string \<Rightarrow> string \<Rightarrow> string \<Rightarrow> real \<Rightarrow> recommendation list" where
  "recommend h p f state_u district_u season_u temperature =
     (let season_crops = get_crops_for_season h p state_u district_u season_u;
          recommendations =
            (if use_ml_model p
             then (case ml_recommendations p f state_u district_u temperature season_crops of
                     Inr recs \<Rightarrow> recs
                   | Inl e \<Rightarrow> predict_with_rules f season_crops)
             else predict_with_rules f season_crops);
          recommendations =
            (if length recommendations < 5
             then supplement 5 recommendations (predict_with_rules f season_crops)
             else recommendations)
      in take 5 (sort_desc suitabilityScore recommendations))"

definition predict :: "(string \<Rightarrow> nat) \<Rightarrow> predictor \<Rightarrow> features \<Rightarrow> features \<times> recommendation list" where
  "predict h p features_in =
     (let state_u = upper (dict_get [] (state features_in));
          district_u = upper (dict_get [] (district features_in));
          season_u = upper (dict_get ''KHARIF'' (season features_in));
          temperature = dict_get 25 (avg_temperature features_in);
          f = features_in\<lparr>state := Some state_u, district := Some district_u,
                           season := Some season_u\<rparr>
      in (f, recommend h p f state_u district_u season_u temperature))"

section \<open>\<^verbatim>\<open>CropPredictorV3\<close> (predictor_v3.py)\<close>

text \<open>
  The attributes of a \<^verbatim>\<open>CropPredictorV3\<close>. Its \<^verbatim>\<open>_load_models\<close> sets \<^verbatim>\<open>use_ml_model\<close> and
  \<^verbatim>\<open>model_version\<close> on every path; each other attribute is unset (\<open>None\<close>) until the
  loader assigns it, and the class reads them without \<^verbatim>\<open>hasattr\<close>.
\<close>

record predictor_v3 =
  v3_classifier :: "(real list \<Rightarrow> real list option) option"
  v3_scaler :: "(real list \<Rightarrow> real list option) option"
  v3_encoders :: "encoders option"
  v3_season_crop_map :: "season_map option"
  v3_crop_profiles :: "profile_table option"
  v3_district_profiles :: "district_table option"
  v3_use_ml_model :: bool
  v3_model_version :: "version option"

subsection \<open>Loading\<close>

definition fresh_v3 :: predictor_v3 where
  "fresh_v3 =
     \<lparr>v3_classifier = None, v3_scaler = None, v3_encoders = None, v3_season_crop_map = None,
      v3_crop_profiles = None, v3_district_profiles = None, v3_use_ml_model = False,
      v3_model_version = None\<rparr>"

definition load_models_v3 :: "model_dir \<Rightarrow> predictor_v3" where
  "load_models_v3 d =
     (case (if file_exists (crop_classifier_v3_pkl d)
            then run_steps
                   [\<lambda>s. map_option (\<lambda>c. s\<lparr>v3_classifier := Some c\<rparr>) (load_file (crop_classifier_v3_pkl d)),
                    \<lambda>s. map_option (\<lambda>c. s\<lparr>v3_scaler := Some c\<rparr>) (load_file (scaler_v3_pkl d)),
                    \<lambda>s. map_option (\<lambda>c. s\<lparr>v3_encoders := Some c\<rparr>) (load_file (encoders_v3_json d)),
                    \<lambda>s. map_option (\<lambda>c. s\<lparr>v3_season_crop_map := Some c\<rparr>)
                           (load_if_exists (season_crop_map_v3_json d) []),
                    \<lambda>s. map_option (\<lambda>c. s\<lparr>v3_crop_profiles := Some c\<rparr>)
                           (load_if_exists (crop_profiles_v3_json d) []),
                    \<lambda>s. Some (s\<lparr>v3_use_ml_model := True, v3_model_version := Some V3\<rparr>)]
                   fresh_v3
            else if file_exists (crop_classifier_v2_pkl d)
            then run_steps
                   [\<lambda>s. map_option (\<lambda>c. s\<lparr>v3_classifier := Some c\<rparr>) (load_file (crop_classifier_v2_pkl d)),
                    \<lambda>s. map_option (\<lambda>c. s\<lparr>v3_scaler := Some c\<rparr>) (load_file (scaler_v2_pkl d)),
                    \<lambda>s. map_option (\<lambda>c. s\<lparr>v3_encoders := Some c\<rparr>) (load_file (encoders_v2_json d)),
                    \<lambda>s. map_option (\<lambda>c. s\<lparr>v3_district_profiles := Some c\<rparr>)
                           (load_file (district_profiles_v2_json d)),
                    \<lambda>s. Some (s\<lparr>v3_season_crop_map := Some [], v3_crop_profiles := Some [],
                                 v3_use_ml_model := True, v3_model_version := Some V2\<rparr>)]
                   fresh_v3
            else (True, fresh_v3\<lparr>v3_use_ml_model := False, v3_model_version := None,
                                 v3_season_crop_map := Some [], v3_crop_profiles := Some [],
                                 v3_encoders := Some empty_encoders\<rparr>)) of
        (True, s) \<Rightarrow> s
      | (False, s) \<Rightarrow> s\<lparr>v3_use_ml_model := False, v3_model_version := None\<rparr>)"

subsection \<open>Prediction\<close>

definition get_crops_for_season_v3 :: "(string \<Rightarrow> nat) \<Rightarrow> predictor_v3 \<Rightarrow> string \<Rightarrow> string \<Rightarrow> string \<Rightarrow> error + string list" where
  "get_crops_for_season_v3 h p state_u district_u season_in =
     (case v3_season_crop_map p of
        None \<Rightarrow> Inl AttributeError
      | Some scm \<Rightarrow> Inr (crops_from_map h scm state_u district_u season_in))"

definition prepare_features_v3 :: "predictor_v3 \<Rightarrow> features \<Rightarrow> error + real list" where
  "prepare_features_v3 p f =
     (case v3_encoders p of
        None \<Rightarrow> Inl AttributeError
      | Some enc \<Rightarrow>
          (let state_u = upper (dict_get [] (state f));
               district_u = upper (dict_get [] (district f));
               season_u = upper (dict_get ''KHARIF'' (season f));
               state_encoded = encode (state_classes enc) state_u;
               district_encoded = encode (district_classes enc) district_u;
               season_encoded =
                 (case season_classes enc of
                    Some cls \<Rightarrow> encode (Some cls) season_u
                  | None \<Rightarrow> 0);
               zn = dict_get 60.0 (soil_zn f);
               fe = dict_get 80.0 (soil_fe f);
               cu = dict_get 90.0 (soil_cu f);
               mn = dict_get 85.0 (soil_mn f);
               b = dict_get 70.0 (soil_b f);
               s = dict_get 75.0 (soil_s f);
               temperature = dict_get 28.0 (avg_temperature f);
               humidity = dict_get 60.0 (avg_humidity f);
               nitrogen = dict_get 100 (soil_nitrogen f);
               potassium = dict_get 150 (soil_potassium f);
               phosphorus = dict_get 20 (soil_phosphorus f)
           in Inr (if v3_model_version p = Some V3
                   then [state_encoded, district_encoded, season_encoded,
                         zn, fe, cu, mn, b, s,
                         2000.0, 1000.0,
                         temperature, humidity, nitrogen, potassium, phosphorus]
                   else [state_encoded, district_encoded, season_encoded,
                         zn, fe, cu, mn, b, s,
                         2000.0, 1000.0,
                         temperature - 5, temperature + 5, temperature,
                         max 30 (humidity - 15), min 100 (humidity + 15), humidity,
                         45.0, nitrogen, potassium, phosphorus])))"

text \<open>\<^verbatim>\<open>_calculate_suitability_score(crop, probability, features)\<close>.\<close>

definition calculate_suitability_score_v3 :: "string \<Rightarrow> real \<Rightarrow> features \<Rightarrow> real" where
  "calculate_suitability_score_v3 crop probability f =
     (let base_score = 30.0;
          prob_score =
            (if 0.2 \<le> probability then 50
             else if 0.1 \<le> probability then 40 + (probability - 0.1) * 100
             else if 0.05 \<le> probability then 25 + (probability - 0.05) * 300
             else probability * 500);
          base_score = base_score + prob_score;
          temp = dict_get 25 (avg_temperature f);
          temp_suit = calculate_temp_suitability crop temp;
          base_score = base_score + temp_suit * 15;
          humidity = dict_get 60 (avg_humidity f);
          base_score =
            (if 50 \<le> humidity \<and> humidity \<le> 75 then base_score + 5
             else if 40 \<le> humidity \<and> humidity \<le> 80 then base_score + 3
             else base_score)
      in min 100 (max 0 base_score))"

text \<open>\<^verbatim>\<open>_predict_yield(crop, features)\<close>: it has no \<^verbatim>\<open>try\<close>.\<close>

definition predict_yield_v3 :: "predictor_v3 \<Rightarrow> string \<Rightarrow> features \<Rightarrow> error + yield_prediction" where
  "predict_yield_v3 p crop f =
     (let state_u = upper (dict_get [] (state f));
          district_u = upper (dict_get [] (district f));
          season_u = upper (dict_get ''KHARIF'' (season f));
          key = upper (state_u @ ''_'' @ district_u @ ''_'' @ season_u)
      in case v3_crop_profiles p of
           None \<Rightarrow> Inl AttributeError
         | Some cp \<Rightarrow>
             (case lookup_profile cp key crop of
                Some profile \<Rightarrow>
                  Inr (profile_yield profile
                         (calculate_temp_suitability crop (dict_get 25 (avg_temperature f))))
              | None \<Rightarrow>
                  Inr (table_yield crop
                         (calculate_temp_suitability crop (dict_get 25 (avg_temperature f))))))"

definition calculate_environmental_factors_v3 :: "string \<Rightarrow> features \<Rightarrow> env_factors" where
  "calculate_environmental_factors_v3 crop f =
     (let temp = dict_get 25 (avg_temperature f);
          humidity = dict_get 60 (avg_humidity f);
          nitrogen = dict_get 100 (soil_nitrogen f);
          phosphorus = dict_get 20 (soil_phosphorus f);
          potassium = dict_get 150 (soil_potassium f);
          soil_score = nutrient_points (soil_zn f) + nutrient_points (soil_fe f)
                       + nutrient_points (soil_cu f) + nutrient_points (soil_mn f);
          npk_score = (if 50 \<le> nitrogen \<and> nitrogen \<le> 200 then 35 else 0)
                      + (if 10 \<le> phosphorus \<and> phosphorus \<le> 50 then 35 else 0)
                      + (if 80 \<le> potassium \<and> potassium \<le> 250 then 30 else 0);
          temp_suit = calculate_temp_suitability crop temp;
          weather_score = temp_suit * 50
                          + (if 40 \<le> humidity \<and> humidity \<le> 80 then 50
                             else if 30 \<le> humidity \<and> humidity \<le> 90 then 30 else 0)
      in \<lparr>soilMatch = py_round 1 (min 100 soil_score),
          npkMatch = py_round 1 (min 100 npk_score),
          weatherMatch = py_round 1 (min 100 weather_score),
          historicalYield = 75.0\<rparr>)"

text \<open>A loop whose body may raise: the first exception ends it.\<close>

fun try_map :: "('a \<Rightarrow> error + 'b) \<Rightarrow> 'a list \<Rightarrow> error + 'b list" where
  "try_map g [] = Inr []"
| "try_map g (x # xs) =
     (case g x of
        Inl e \<Rightarrow> Inl e
      | Inr y \<Rightarrow> (case try_map g xs of Inl e \<Rightarrow> Inl e | Inr ys \<Rightarrow> Inr (y # ys)))"

definition recommendation_v3 :: "predictor_v3 \<Rightarrow> features \<Rightarrow> string \<Rightarrow> real \<Rightarrow> bool \<Rightarrow> error + recommendation" where
  "recommendation_v3 p f crop score_v is_match =
     (case predict_yield_v3 p crop f of
        Inl e \<Rightarrow> Inl e
      | Inr yield_pred \<Rightarrow>
          Inr \<lparr>cropName = crop,
               suitabilityScore = py_round 1 score_v,
               yieldPrediction = yield_pred,
               environmentalFactors = calculate_environmental_factors_v3 crop f,
               seasonMatch = is_match,
               temperatureSuitability = None\<rparr>)"

text \<open>\<^verbatim>\<open>_fallback_predictions(features, season_crops)\<close>.\<close>

definition fallback_predictions :: "predictor_v3 \<Rightarrow> features \<Rightarrow> string list \<Rightarrow> error + recommendation list" where
  "fallback_predictions p f season_crops =
     (let temperature = dict_get 25 (avg_temperature f)
      in case try_map (\<lambda>crop. recommendation_v3 p f crop
                                 (50 + calculate_temp_suitability crop temperature * 40) True)
                season_crops of
           Inl e \<Rightarrow> Inl e
         | Inr recommendations \<Rightarrow> Inr (take 5 (sort_desc suitabilityScore recommendations)))"

definition score_candidate_v3 :: "features \<Rightarrow> real \<Rightarrow> string \<Rightarrow> real \<Rightarrow> bool \<Rightarrow> scored" where
  "score_candidate_v3 f temperature crop prob is_match =
     (let score_v = calculate_suitability_score_v3 crop prob f;
          score_v = (if is_match then min 100 (score_v * 1.3) else score_v * 0.4);
          temp_suit = calculate_temp_suitability crop temperature;
          score_v = (if temp_suit < 0.5 then score_v * 0.7 else score_v)
      in \<lparr>crop_name = crop, score = score_v, is_season_match = is_match,
          temp_suitability = temp_suit\<rparr>)"

text \<open>
  The scoring loop runs over \<^verbatim>\<open>enumerate(crop_classes)\<close> and skips an index that has no
  probability: it visits the pairs of \<open>zip\<close>.
\<close>

definition all_scores_v3 :: "features \<Rightarrow> real \<Rightarrow> string list \<Rightarrow> real list \<Rightarrow> string list \<Rightarrow> scored list" where
  "all_scores_v3 f temperature classes probabilities season_crops =
     map (\<lambda>cp. score_candidate_v3 f temperature (fst cp) (snd cp) (fst cp \<in> set season_crops))
       (zip classes probabilities)"

text \<open>The body of the \<^verbatim>\<open>try\<close> in \<^verbatim>\<open>CropPredictorV3.predict\<close>.\<close>

definition ml_recommendations_v3 :: "predictor_v3 \<Rightarrow> features \<Rightarrow> real \<Rightarrow> string list \<Rightarrow> error + recommendation list" where
  "ml_recommendations_v3 p f temperature season_crops =
     (case prepare_features_v3 p f of
        Inl e \<Rightarrow> Inl e
      | Inr feature_vector \<Rightarrow>
          (case call_attr (v3_scaler p) feature_vector of
             Inl e \<Rightarrow> Inl e
           | Inr scaled_features \<Rightarrow>
               (case call_attr (v3_classifier p) scaled_features of
                  Inl e \<Rightarrow> Inl e
                | Inr probabilities \<Rightarrow>
                    (case v3_encoders p of
                       None \<Rightarrow> Inl AttributeError
                     | Some enc \<Rightarrow>
                         try_map (\<lambda>item. recommendation_v3 p f (crop_name item) (score item)
                                            (is_season_match item))
                           (filter (\<lambda>item. \<not> score item < 30)
                              (take 10
                                 (sort_desc2 (\<lambda>x. (is_season_match x, score x))
                                    (all_scores_v3 f temperature (dict_get [] (crop_classes enc))
                                       probabilities season_crops))))))))"

definition supplement_v3 :: "recommendation list \<Rightarrow> recommendation list \<Rightarrow> recommendation list" where
  "supplement_v3 recommendations fallback =
     (let existing_crops = set (map cropName recommendations)
      in foldl (\<lambda>acc fb. if cropName fb \<notin> existing_crops then acc @ [fb] else acc)
           recommendations fallback)"

text \<open>
  \<^verbatim>\<open>CropPredictorV3.predict(features)\<close>, in the same two parts: the dictionary as the call
  leaves it, and the list or the exception that leaves the call.
\<close>

definition recommend_v3 :: "(string \<Rightarrow> nat) \<Rightarrow> predictor_v3 \<Rightarrow> features \<Rightarrow> string \<Rightarrow> string \<Rightarrow> string \<Rightarrow> real \<Rightarrow> error + recommendation list" where
  "recommend_v3 h p f state_u district_u season_u temperature =
     (case get_crops_for_season_v3 h p state_u district_u season_u of
        Inl e \<Rightarrow> Inl e
      | Inr season_crops \<Rightarrow>
          if \<not> v3_use_ml_model p then fallback_predictions p f season_crops
          else (case ml_recommendations_v3 p f temperature season_crops of
                  Inl e \<Rightarrow> fallback_predictions p f season_crops
                | Inr recommendations \<Rightarrow>
                    if length recommendations < 3
                    then (case fallback_predictions p f season_crops of
                            Inl e \<Rightarrow> Inl e
                          | Inr fallback \<Rightarrow>
                              Inr (take 5 (sort_desc suitabilityScore
                                             (supplement_v3 recommendations fallback))))
                    else Inr (take 5 (sort_desc suitabilityScore recommendations))))"

definition predict_v3 :: "(string \<Rightarrow> nat) \<Rightarrow> predictor_v3 \<Rightarrow> features \<Rightarrow> features \<times> (error + recommendation list)" where
  "predict_v3 h p features_in =
     (let state_u = upper (dict_get [] (state features_in));
          district_u = upper (dict_get [] (district features_in));
          season_u = upper (dict_get ''KHARIF'' (season features_in));
          temperature = dict_get 25 (avg_temperature features_in);
          f = features_in\<lparr>state := Some state_u, district := Some district_u,
                           season := Some season_u\<rparr>
      in (f, recommend_v3 h p f state_u district_u season_u temperature))"

section \<open>Concrete inputs\<close>

definition no_features :: features where
  "no_features =
     \<lparr>state = None, district = None, season = None, avg_temperature = None,
      avg_humidity = None, soil_moisture = None, soil_nitrogen = None,
      soil_phosphorus = None, soil_potassium = None, soil_zn = None, soil_fe = None,
      soil_cu = None, soil_mn = None, soil_b = None, soil_s = None\<rparr>"

text \<open>The dictionary of the spec's scenario.\<close>

definition punjab_rabi :: features where
  "punjab_rabi =
     no_features\<lparr>state := Some ''PUNJAB'', district := Some ''LUDHIANA'',
                  season := Some ''RABI'', avg_temperature := Some 20,
                  soil_nitrogen := Some 120\<rparr>"

definition reading :: "string \<Rightarrow> real \<Rightarrow> real \<Rightarrow> features" where
  "reading se t hum =
     no_features\<lparr>state := Some ''Punjab'', district := Some ''Ludhiana'', season := Some se,
                  avg_temperature := Some t, avg_humidity := Some hum\<rparr>"

text \<open>
  A model directory in the v3 format: a classifier that returns the given probabilities
  for the given classes, a scaler that returns its input, an encoder table, and the crop
  profile file as given.
\<close>

definition v3_dir :: "string list \<Rightarrow> real list \<Rightarrow> profile_table disk_file \<Rightarrow> model_dir" where
  "v3_dir classes probs profiles =
     empty_model_dir
       \<lparr>crop_classifier_v3_pkl := Stored (\<lambda>x. Some probs),
        scaler_v3_pkl := Stored Some,
        encoders_v3_json :=
          Stored \<lparr>state_classes = Some [''PUNJAB''], district_classes = Some [''LUDHIANA''],
                  season_classes = Some [''KHARIF'', ''RABI''], crop_classes = Some classes\<rparr>,
        crop_profiles_v3_json := profiles\<rparr>"

text \<open>
  An encoder table is a lookup when its crop labels are pairwise distinct (the classes of
  a label encoder are).
\<close>

definition proper_lookup :: "encoders \<Rightarrow> bool" where
  "proper_lookup enc = distinct (dict_get [] (crop_classes enc))"

text \<open>
  The order the spec claims for the returned list: season-matched entries first, and by
  descending score among entries of the same season match.
\<close>

definition season_then_score_order :: "recommendation list \<Rightarrow> bool" where
  "season_then_score_order rs =
     sorted_wrt (\<lambda>a b. (seasonMatch a \<and> \<not> seasonMatch b)
                       \<or> (seasonMatch a = seasonMatch b \<and> suitabilityScore b \<le> suitabilityScore a)) rs"

section \<open>Facts about the tables and the suitability function\<close>

lemma temp_range_proper:
  assumes "map_of CROP_TEMP_RANGES crop = Some (lo, hi)"
  shows "lo < hi"
proof -
  have "(crop, (lo, hi)) \<in> set CROP_TEMP_RANGES"
    using assms by (rule map_of_SomeD)
  then show ?thesis
    by (auto simp: CROP_TEMP_RANGES_def)
qed

lemma temp_suitability_inside:
  assumes "map_of CROP_TEMP_RANGES crop = Some (lo, hi)" and "lo \<le> t" and "t \<le> hi"
  shows "calculate_temp_suitability crop t = 1 - 0.2 * (\<bar>t - (lo + hi) / 2\<bar> / ((hi - lo) / 2))"
  using assms by (simp add: calculate_temp_suitability_def Let_def)

lemma temp_suitability_below:
  assumes "map_of CROP_TEMP_RANGES crop = Some (lo, hi)" and "t < lo"
  shows "calculate_temp_suitability crop t = max 0.2 (0.8 - 0.05 * (lo - t))"
  using assms by (simp add: calculate_temp_suitability_def Let_def)

lemma temp_suitability_above:
  assumes "map_of CROP_TEMP_RANGES crop = Some (lo, hi)" and "hi < t"
  shows "calculate_temp_suitability crop t = max 0.2 (0.8 - 0.05 * (t - hi))"
proof -
  have "lo < hi" using assms(1) by (rule temp_range_proper)
  then show ?thesis
    using assms by (simp add: calculate_temp_suitability_def Let_def)
qed

lemma temp_suitability_unknown:
  assumes "map_of CROP_TEMP_RANGES crop = None"
  shows "calculate_temp_suitability crop t = 0.7"
  using assms by (simp add: calculate_temp_suitability_def)

lemma inside_distance_le_one:
  fixes lo hi t :: real
  assumes "lo < hi" and "lo \<le> t" and "t \<le> hi"
  shows "\<bar>t - (lo + hi) / 2\<bar> / ((hi - lo) / 2) \<le> 1"
proof -
  have "\<bar>t - (lo + hi) / 2\<bar> \<le> (hi - lo) / 2"
    using assms by (simp add: abs_le_iff field_simps)
  moreover have "0 < (hi - lo) / 2"
    using assms by simp
  ultimately show ?thesis
    by (simp add: divide_le_eq)
qed

lemma unit_affine:
  fixes d :: real
  assumes "0 \<le> d" and "d \<le> 1"
  shows "0.8 \<le> 1 - 0.2 * d" and "1 - 0.2 * d \<le> 1"
  using assms by (simp_all add: field_simps)

lemma temp_suitability_range: "0.2 \<le> calculate_temp_suitability crop t \<and> calculate_temp_suitability crop t \<le> 1"
proof (cases "map_of CROP_TEMP_RANGES crop")
  case None
  then show ?thesis by (simp add: temp_suitability_unknown)
next
  case (Some r)
  obtain lo hi where r: "r = (lo, hi)" by (cases r)
  have m: "map_of CROP_TEMP_RANGES crop = Some (lo, hi)" using Some r by simp
  have lt: "lo < hi" using m by (rule temp_range_proper)
  consider (below) "t < lo" | (inside) "lo \<le> t" "t \<le> hi" | (above) "hi < t"
    by linarith
  then show ?thesis
  proof cases
    case below
    then have "0.8 - 0.05 * (lo - t) \<le> 1" by (simp add: field_simps)
    then show ?thesis
      using below by (simp add: temp_suitability_below [OF m])
  next
    case inside
    have d: "\<bar>t - (lo + hi) / 2\<bar> / ((hi - lo) / 2) \<le> 1"
      using lt inside by (rule inside_distance_le_one)
    have d0: "0 \<le> \<bar>t - (lo + hi) / 2\<bar> / ((hi - lo) / 2)"
      using lt by simp
    have "0.8 \<le> calculate_temp_suitability crop t" and "calculate_temp_suitability crop t \<le> 1"
      using unit_affine [OF d0 d] by (simp_all only: temp_suitability_inside [OF m inside])
    then show ?thesis by simp
  next
    case above
    then have "0.8 - 0.05 * (t - hi) \<le> 1" by (simp add: field_simps)
    then show ?thesis
      using above by (simp add: temp_suitability_above [OF m])
  qed
qed

subsection \<open>Rounding, sorting, sets and upper case\<close>

lemma round_half_even_of_int: "round_half_even (of_int k) = k"
  by (simp add: round_half_even_def)

lemma round_half_even_bounds: "\<lfloor>x\<rfloor> \<le> round_half_even x \<and> round_half_even x \<le> \<lfloor>x\<rfloor> + 1"
  by (simp add: round_half_even_def Let_def)

lemma round_half_even_mono:
  assumes "x \<le> y"
  shows "round_half_even x \<le> round_half_even y"
proof (cases "\<lfloor>x\<rfloor> = \<lfloor>y\<rfloor>")
  case True
  then have "x - of_int \<lfloor>x\<rfloor> \<le> y - of_int \<lfloor>y\<rfloor>"
    using assms by simp
  then show ?thesis
    using True by (auto simp: round_half_even_def Let_def)
next
  case False
  have "\<lfloor>x\<rfloor> \<le> \<lfloor>y\<rfloor>" using assms by (rule floor_mono)
  then have "\<lfloor>x\<rfloor> + 1 \<le> \<lfloor>y\<rfloor>" using False by simp
  then show ?thesis
    using round_half_even_bounds [of x] round_half_even_bounds [of y] by linarith
qed

lemma py_round_mono: "x \<le> y \<Longrightarrow> py_round n x \<le> py_round n y"
  by (simp add: py_round_def round_half_even_mono divide_right_mono)

lemma py_round_of_int: "py_round 0 (of_int k) = of_int k"
  by (simp add: py_round_def round_half_even_of_int)

lemma py_round_tenths: "py_round 1 (of_int k / 10) = of_int k / 10"
  by (simp add: py_round_def round_half_even_of_int)

lemma py_round0_ge:
  assumes "of_int k \<le> x"
  shows "of_int k \<le> py_round 0 x"
proof -
  have "py_round 0 (of_int k) \<le> py_round 0 x"
    using assms by (rule py_round_mono)
  then show ?thesis by (simp only: py_round_of_int)
qed

lemma py_round1_ge:
  assumes "of_int k / 10 \<le> x"
  shows "of_int k / 10 \<le> py_round 1 x"
proof -
  have "py_round 1 (of_int k / 10) \<le> py_round 1 x"
    using assms by (rule py_round_mono)
  then show ?thesis by (simp only: py_round_tenths)
qed

lemma py_round1_le:
  assumes "x \<le> of_int k / 10"
  shows "py_round 1 x \<le> of_int k / 10"
proof -
  have "py_round 1 x \<le> py_round 1 (of_int k / 10)"
    using assms by (rule py_round_mono)
  then show ?thesis by (simp only: py_round_tenths)
qed

lemma set_sort_desc: "set (sort_desc k xs) = set xs"
  by (simp add: sort_desc_def)

lemma length_sort_desc: "length (sort_desc k xs) = length xs"
  by (simp add: sort_desc_def)

lemma sorted_sort_desc: "sorted_wrt (\<lambda>a b. k b \<le> k a) (sort_desc k xs)"
proof -
  have "sorted (map (\<lambda>x. - k x) (sort_desc k xs))"
    unfolding sort_desc_def by (rule sorted_sort_key)
  then show ?thesis
    by (simp add: sorted_map)
qed

lemma sort_desc_stable: "filter (\<lambda>y. k y = v) (sort_desc k xs) = filter (\<lambda>y. k y = v) xs"
  using sort_key_stable [of "\<lambda>x. - k x" "- v" xs] by (simp add: sort_desc_def)

lemma sorted_sort_desc2: "sorted_wrt (\<lambda>a b. k b \<le> k a) (sort_desc2 k xs)"
proof -
  have "sorted (map (\<lambda>x. (\<not> fst (k x), - snd (k x))) (sort_desc2 k xs))"
    unfolding sort_desc2_def by (rule sorted_sort_key)
  then have "sorted_wrt (\<lambda>a b. (\<not> fst (k a), - snd (k a)) \<le> (\<not> fst (k b), - snd (k b)))
               (sort_desc2 k xs)"
    by (simp add: sorted_map)
  moreover have "\<And>a b. (\<not> fst (k a), - snd (k a)) \<le> (\<not> fst (k b), - snd (k b)) \<Longrightarrow> k b \<le> k a"
  proof -
    fix a b
    assume "(\<not> fst (k a), - snd (k a)) \<le> (\<not> fst (k b), - snd (k b))"
    then show "k b \<le> k a"
      by (cases "k a"; cases "k b") (auto simp: less_eq_prod_def)
  qed
  ultimately show ?thesis
    by (rule sorted_wrt_mono_rel [rotated])
qed

lemma sorted_wrt_take: "sorted_wrt P xs \<Longrightarrow> sorted_wrt P (take n xs)"
  by (metis append_take_drop_id sorted_wrt_append)

lemma distinct_map_sort_key: "distinct (map g (sort_key k xs)) = distinct (map g xs)"
  by (simp add: distinct_map)

lemma distinct_map_sort_desc: "distinct (map g (sort_desc k xs)) = distinct (map g xs)"
  unfolding sort_desc_def by (rule distinct_map_sort_key)

lemma set_sort_desc2: "set (sort_desc2 k xs) = set xs"
  by (simp add: sort_desc2_def)

lemma distinct_map_sort_desc2: "distinct (map g (sort_desc2 k xs)) = distinct (map g xs)"
  unfolding sort_desc2_def by (rule distinct_map_sort_key)

lemma distinct_py_set: "distinct (py_set h xs)"
  by (simp add: py_set_def)

lemma set_py_set: "set (py_set h xs) = set xs"
  by (simp add: py_set_def)

lemma char_upper_idem: "char_upper (char_upper c) = char_upper c"
  by (auto simp: char_upper_def)

lemma upper_idem: "upper (upper s) = upper s"
  by (simp add: upper_def char_upper_idem)

lemma upper_append: "upper (a @ b) = upper a @ upper b"
  by (simp add: upper_def)

subsection \<open>Scores\<close>

lemma clamp_range:
  fixes x :: real
  shows "0 \<le> min 100 (max 0 x) \<and> min 100 (max 0 x) \<le> 100"
  by simp

lemma suitability_score_ml_range:
  "0 \<le> calculate_suitability_score_ml p idx probabilities f
   \<and> calculate_suitability_score_ml p idx probabilities f \<le> 100"
  unfolding calculate_suitability_score_ml_def Let_def by (rule clamp_range)

lemma season_adjust_strict:
  fixes s ts :: real
  assumes "0 \<le> s" and "s \<le> 100" and "0.2 \<le> ts"
  shows "s * 0.35 < min 100 (s * 1.25) + ts * 10"
proof (cases "s * 1.25 \<le> 100")
  case True
  then have "min 100 (s * 1.25) = s * 1.25" by simp
  moreover have "s * 0.35 < s * 1.25 + ts * 10"
    using assms by (simp add: field_simps)
  ultimately show ?thesis by simp
next
  case False
  then have "min 100 (s * 1.25) = 100" by simp
  moreover have "s * 0.35 < 100 + ts * 10"
    using assms by (simp add: field_simps)
  ultimately show ?thesis by simp
qed

lemma penalty_strict:
  fixes a b k :: real
  assumes "a < b" and "0 < k"
  shows "(if c then a * k else a) < (if c then b * k else b)"
  using assms by simp

lemma score_candidate_strict:
  "score (score_candidate p probabilities f temperature idx c False)
     < score (score_candidate p probabilities f temperature idx c True)"
proof -
  let ?s = "calculate_suitability_score_ml p idx probabilities f"
  let ?ts = "calculate_temp_suitability c temperature"
  have r: "0 \<le> ?s" "?s \<le> 100"
    using suitability_score_ml_range [of p idx probabilities f] by simp_all
  have t: "0.2 \<le> ?ts"
    using temp_suitability_range [of c temperature] by simp
  have lt: "?s * 0.35 < min 100 (?s * 1.25) + ?ts * 10"
    using r t by (rule season_adjust_strict)
  have e1: "score (score_candidate p probabilities f temperature idx c False)
              = (if ?ts < 0.5 then ?s * 0.35 * 0.8 else ?s * 0.35)"
    by (simp add: score_candidate_def Let_def)
  have e2: "score (score_candidate p probabilities f temperature idx c True)
              = (if ?ts < 0.5 then (min 100 (?s * 1.25) + ?ts * 10) * 0.8
                 else min 100 (?s * 1.25) + ?ts * 10)"
    by (simp add: score_candidate_def Let_def)
  show ?thesis
    unfolding e1 e2 by (rule penalty_strict [OF lt]) simp
qed

lemma clamp_positive:
  fixes x :: real
  assumes "0 < x"
  shows "0 < min 100 (max 0 x)"
  using assms by simp

lemma prob_score_v3_nonneg:
  fixes probability :: real
  assumes "0 \<le> probability"
  shows "0 \<le> (if 0.2 \<le> probability then 50
               else if 0.1 \<le> probability then 40 + (probability - 0.1) * 100
               else if 0.05 \<le> probability then 25 + (probability - 0.05) * 300
               else probability * 500)"
  using assms by simp

lemma humidity_bonus_nonneg:
  fixes x humidity :: real
  shows "x \<le> (if 50 \<le> humidity \<and> humidity \<le> 75 then x + 5
               else if 40 \<le> humidity \<and> humidity \<le> 80 then x + 3 else x)"
  by simp

lemma suitability_score_v3_positive:
  assumes "0 \<le> prob"
  shows "0 < calculate_suitability_score_v3 c prob f"
proof -
  let ?ts = "calculate_temp_suitability c (dict_get 25 (avg_temperature f))"
  let ?ps = "if 0.2 \<le> prob then 50
             else if 0.1 \<le> prob then 40 + (prob - 0.1) * 100
             else if 0.05 \<le> prob then 25 + (prob - 0.05) * 300
             else prob * 500"
  have t: "0.2 \<le> ?ts"
    using temp_suitability_range [of c "dict_get 25 (avg_temperature f)"] by simp
  have ps: "0 \<le> ?ps" using assms by (rule prob_score_v3_nonneg)
  have "0 < 30.0 + ?ps + ?ts * 15"
    using t ps by linarith
  moreover have "30.0 + ?ps + ?ts * 15
            \<le> (if 50 \<le> dict_get 60 (avg_humidity f) \<and> dict_get 60 (avg_humidity f) \<le> 75
                then 30.0 + ?ps + ?ts * 15 + 5
                else if 40 \<le> dict_get 60 (avg_humidity f) \<and> dict_get 60 (avg_humidity f) \<le> 80
                then 30.0 + ?ps + ?ts * 15 + 3 else 30.0 + ?ps + ?ts * 15)"
    by (rule humidity_bonus_nonneg)
  ultimately show ?thesis
    unfolding calculate_suitability_score_v3_def Let_def
    by (intro clamp_positive) linarith
qed

lemma suitability_score_v3_range:
  "0 \<le> calculate_suitability_score_v3 c prob f \<and> calculate_suitability_score_v3 c prob f \<le> 100"
  unfolding calculate_suitability_score_v3_def Let_def by (rule clamp_range)

lemma season_adjust_v3_strict:
  fixes s :: real
  assumes "s \<le> 100" and "0 < s"
  shows "s * 0.4 < min 100 (s * 1.3)"
  using assms by (simp add: min_def field_simps)

lemma score_candidate_v3_strict:
  assumes "0 \<le> prob"
  shows "score (score_candidate_v3 f temperature c prob False)
           < score (score_candidate_v3 f temperature c prob True)"
proof -
  let ?s = "calculate_suitability_score_v3 c prob f"
  let ?ts = "calculate_temp_suitability c temperature"
  have pos: "0 < ?s" using assms by (rule suitability_score_v3_positive)
  have le: "?s \<le> 100" using suitability_score_v3_range [of c prob f] by simp
  have lt: "?s * 0.4 < min 100 (?s * 1.3)"
    using le pos by (rule season_adjust_v3_strict)
  have e1: "score (score_candidate_v3 f temperature c prob False)
              = (if ?ts < 0.5 then ?s * 0.4 * 0.7 else ?s * 0.4)"
    by (simp add: score_candidate_v3_def Let_def)
  have e2: "score (score_candidate_v3 f temperature c prob True)
              = (if ?ts < 0.5 then min 100 (?s * 1.3) * 0.7 else min 100 (?s * 1.3))"
    by (simp add: score_candidate_v3_def Let_def)
  show ?thesis
    unfolding e1 e2 by (rule penalty_strict [OF lt]) simp
qed

subsection \<open>The dictionary after a call\<close>

lemma predict_features:
  "fst (predict h p f)
     = f\<lparr>state := Some (upper (dict_get [] (state f))),
         district := Some (upper (dict_get [] (district f))),
         season := Some (upper (dict_get ''KHARIF'' (season f)))\<rparr>"
  by (simp add: predict_def Let_def)

lemma predict_v3_features:
  "fst (predict_v3 h q f)
     = f\<lparr>state := Some (upper (dict_get [] (state f))),
         district := Some (upper (dict_get [] (district f))),
         season := Some (upper (dict_get ''KHARIF'' (season f)))\<rparr>"
  by (simp add: predict_v3_def Let_def)

lemma dict_get_Some: "dict_get d (Some x) = x"
  by (simp add: dict_get_def)

lemma predict_again: "predict h p (fst (predict h p f)) = predict h p f"
  by (simp add: predict_def Let_def dict_get_Some upper_idem)

lemma predict_v3_again: "predict_v3 h q (fst (predict_v3 h q f)) = predict_v3 h q f"
  by (simp add: predict_v3_def Let_def dict_get_Some upper_idem)

lemma upper_Punjab: "upper ''Punjab'' = ''PUNJAB''"
  by (simp add: upper_def char_upper_def char_of_def bit_Suc_0_iff)

subsection \<open>Crop names of the returned list\<close>

lemma distinct_crops_for_season: "distinct (get_crops_for_season h p state_u district_u season_in)"
  by (simp add: get_crops_for_season_def crops_from_map_def default_crops_def Let_def
        distinct_py_set split: option.splits)

lemma distinct_crops_from_map: "distinct (crops_from_map h scm state_u district_u season_in)"
  by (simp add: crops_from_map_def default_crops_def Let_def distinct_py_set split: option.splits)

lemma cropName_rule_recommendation: "cropName (rule_recommendation f t c) = c"
  by (simp add: rule_recommendation_def Let_def)

lemma names_predict_with_rules:
  "distinct season_crops \<Longrightarrow> distinct (map cropName (predict_with_rules f season_crops))"
proof -
  assume d: "distinct season_crops"
  let ?t = "dict_get 25 (avg_temperature f)"
  let ?xs = "filter (\<lambda>c. \<not> 50 + calculate_temp_suitability c ?t * 40 < 30) season_crops"
  have "map cropName (map (rule_recommendation f ?t) ?xs) = ?xs"
    by (simp add: cropName_rule_recommendation comp_def)
  moreover have "distinct ?xs" using d by simp
  ultimately have "distinct (map cropName (map (rule_recommendation f ?t) ?xs))"
    by simp
  then show ?thesis
    unfolding predict_with_rules_def Let_def by (simp only: distinct_map_sort_desc)
qed

lemma distinct_map_nth_filter:
  assumes "distinct xs"
  shows "distinct (map ((!) xs) (filter P [0..<length xs]))"
proof -
  have "inj_on ((!) xs) (set (filter P [0..<length xs]))"
    using assms by (intro inj_on_nth) auto
  then show ?thesis
    by (simp add: distinct_map)
qed

lemma crop_name_score_candidate: "crop_name (score_candidate p pr f t i c m) = c"
  by (simp add: score_candidate_def Let_def)

lemma names_all_scores:
  "map crop_name (all_scores p pr f t classes sc)
     = map ((!) classes) (filter (\<lambda>idx. \<not> length pr \<le> idx) [0..<length classes])"
  by (simp add: all_scores_def crop_name_score_candidate comp_def)

lemma distinct_map_take: "distinct (map g xs) \<Longrightarrow> distinct (map g (take n xs))"
  by (simp add: take_map [symmetric])

lemma cropName_build_recommendation: "cropName (build_recommendation p fv f su du item) = crop_name item"
  by (simp add: build_recommendation_def Let_def)

lemma names_ml_recommendations:
  assumes "ml_recommendations p f su du t sc = Inr recs"
    and "distinct (dict_get [] (crop_classes (encoders p)))"
  shows "distinct (map cropName recs)"
proof -
  obtain pr classes where c: "crop_classes (encoders p) = Some classes"
    and r: "recs = map (build_recommendation p (prepare_features p f) f su du)
                     (filter (\<lambda>item. \<not> score item < 30)
                        (take 15 (sort_desc2 (\<lambda>x. (is_season_match x, score x))
                                    (all_scores p pr f t classes sc))))"
    using assms(1)
    by (auto simp: ml_recommendations_def Let_def split: sum.splits option.splits)
  have "distinct classes" using assms(2) c by (simp add: dict_get_Some)
  then have "distinct (map crop_name (all_scores p pr f t classes sc))"
    unfolding names_all_scores by (rule distinct_map_nth_filter)
  then have "distinct (map crop_name (sort_desc2 (\<lambda>x. (is_season_match x, score x))
                                        (all_scores p pr f t classes sc)))"
    by (simp only: distinct_map_sort_desc2)
  then have "distinct (map crop_name (take 15 (sort_desc2 (\<lambda>x. (is_season_match x, score x))
                                        (all_scores p pr f t classes sc))))"
    by (rule distinct_map_take)
  then have "distinct (map crop_name (filter (\<lambda>item. \<not> score item < 30)
                        (take 15 (sort_desc2 (\<lambda>x. (is_season_match x, score x))
                                    (all_scores p pr f t classes sc)))))"
    by (rule distinct_map_filter)
  then show ?thesis
    unfolding r by (simp add: cropName_build_recommendation comp_def)
qed

lemma foldl_append_distinct:
  assumes "distinct (map g acc)" and "distinct (map g xs)"
    and "set (map g acc) \<inter> set (map g xs) \<subseteq> E"
  shows "distinct (map g (foldl (\<lambda>acc r. if g r \<notin> E \<and> Q acc then acc @ [r] else acc) acc xs))"
  using assms
proof (induction xs arbitrary: acc)
  case Nil
  then show ?case by simp
next
  case (Cons x xs)
  let ?acc = "if g x \<notin> E \<and> Q acc then acc @ [x] else acc"
  have d: "distinct (map g ?acc)"
    using Cons.prems by auto
  have e: "set (map g ?acc) \<inter> set (map g xs) \<subseteq> E"
    using Cons.prems by auto
  have "distinct (map g xs)" using Cons.prems by simp
  with d e have "distinct (map g (foldl (\<lambda>acc r. if g r \<notin> E \<and> Q acc then acc @ [r] else acc) ?acc xs))"
    by (intro Cons.IH)
  then show ?case by simp
qed

lemma names_supplement:
  assumes "distinct (map cropName recs)" and "distinct (map cropName rule_recs)"
  shows "distinct (map cropName (supplement n recs rule_recs))"
  unfolding supplement_def Let_def
  using assms by (intro foldl_append_distinct) auto

lemma names_supplement_v3:
  assumes "distinct (map cropName recs)" and "distinct (map cropName fallback)"
  shows "distinct (map cropName (supplement_v3 recs fallback))"
proof -
  have "distinct (map cropName (foldl (\<lambda>acc r. if cropName r \<notin> set (map cropName recs) \<and> True
                                             then acc @ [r] else acc) recs fallback))"
    using assms by (intro foldl_append_distinct) auto
  then show ?thesis
    by (simp add: supplement_v3_def Let_def)
qed

lemma names_recommend:
  assumes "distinct (dict_get [] (crop_classes (encoders p)))"
  shows "distinct (map cropName (recommend h p f su du se t))"
proof -
  let ?sc = "get_crops_for_season h p su du se"
  let ?rules = "predict_with_rules f ?sc"
  let ?recs = "if use_ml_model p
               then (case ml_recommendations p f su du t ?sc of
                       Inr recs \<Rightarrow> recs | Inl e \<Rightarrow> ?rules)
               else ?rules"
  let ?recs' = "if length ?recs < 5 then supplement 5 ?recs ?rules else ?recs"
  have rules: "distinct (map cropName ?rules)"
    by (intro names_predict_with_rules distinct_crops_for_season)
  have recs: "distinct (map cropName ?recs)"
    using rules names_ml_recommendations [OF _ assms]
    by (auto split: sum.splits)
  have "distinct (map cropName ?recs')"
    using recs rules by (simp add: names_supplement)
  then have "distinct (map cropName (take 5 (sort_desc suitabilityScore ?recs')))"
    by (intro distinct_map_take) (simp only: distinct_map_sort_desc)
  then show ?thesis
    by (simp add: recommend_def Let_def)
qed

subsection \<open>Crop names, order and length of the list of \<^verbatim>\<open>CropPredictorV3\<close>\<close>

lemma try_map_names:
  assumes "try_map g xs = Inr ys" and "\<And>x y. g x = Inr y \<Longrightarrow> nm y = k x"
  shows "map nm ys = map k xs"
  using assms(1)
proof (induction xs arbitrary: ys)
  case Nil
  then show ?case by simp
next
  case (Cons x xs)
  then obtain y ys' where gx: "g x = Inr y" and rest: "try_map g xs = Inr ys'" and ys: "ys = y # ys'"
    by (auto split: sum.splits)
  have "nm y = k x" using gx by (rule assms(2))
  moreover have "map nm ys' = map k xs" using rest by (rule Cons.IH)
  ultimately show ?case using ys by simp
qed

lemma cropName_recommendation_v3:
  "recommendation_v3 p f crop score_v is_match = Inr r \<Longrightarrow> cropName r = crop"
  by (auto simp: recommendation_v3_def split: sum.splits)

lemma names_fallback_predictions:
  assumes "fallback_predictions p f season_crops = Inr fb" and "distinct season_crops"
  shows "distinct (map cropName fb)"
proof -
  let ?t = "dict_get 25 (avg_temperature f)"
  obtain rs where rs: "try_map (\<lambda>crop. recommendation_v3 p f crop
                                  (50 + calculate_temp_suitability crop ?t * 40) True)
                          season_crops = Inr rs"
    and fb: "fb = take 5 (sort_desc suitabilityScore rs)"
    using assms(1) by (auto simp: fallback_predictions_def Let_def split: sum.splits)
  have "map cropName rs = map (\<lambda>c. c) season_crops"
    using rs by (rule try_map_names) (rule cropName_recommendation_v3)
  then have "distinct (map cropName rs)" using assms(2) by simp
  then have "distinct (map cropName (sort_desc suitabilityScore rs))"
    by (simp only: distinct_map_sort_desc)
  then show ?thesis unfolding fb by (rule distinct_map_take)
qed

lemma crop_name_score_candidate_v3: "crop_name (score_candidate_v3 f t c pr m) = c"
  by (simp add: score_candidate_v3_def Let_def)

lemma names_all_scores_v3:
  "map crop_name (all_scores_v3 f t classes pr sc) = take (length pr) classes"
proof -
  have "map crop_name (all_scores_v3 f t classes pr sc) = map fst (zip classes pr)"
    by (simp add: all_scores_v3_def crop_name_score_candidate_v3 comp_def)
  then show ?thesis by (simp add: map_fst_zip_take min_def)
qed

lemma names_ml_recommendations_v3:
  assumes "ml_recommendations_v3 p f t sc = Inr recs"
    and "\<And>enc. v3_encoders p = Some enc \<Longrightarrow> distinct (dict_get [] (crop_classes enc))"
  shows "distinct (map cropName recs)"
proof -
  obtain pr enc where enc: "v3_encoders p = Some enc"
    and r: "try_map (\<lambda>item. recommendation_v3 p f (crop_name item) (score item) (is_season_match item))
              (filter (\<lambda>item. \<not> score item < 30)
                 (take 10 (sort_desc2 (\<lambda>x. (is_season_match x, score x))
                             (all_scores_v3 f t (dict_get [] (crop_classes enc)) pr sc))))
            = Inr recs"
    using assms(1)
    by (auto simp: ml_recommendations_v3_def split: sum.splits option.splits)
  let ?items = "filter (\<lambda>item. \<not> score item < 30)
                 (take 10 (sort_desc2 (\<lambda>x. (is_season_match x, score x))
                             (all_scores_v3 f t (dict_get [] (crop_classes enc)) pr sc)))"
  have "distinct (dict_get [] (crop_classes enc))" using enc by (rule assms(2))
  then have "distinct (map crop_name (all_scores_v3 f t (dict_get [] (crop_classes enc)) pr sc))"
    by (simp add: names_all_scores_v3)
  then have "distinct (map crop_name (sort_desc2 (\<lambda>x. (is_season_match x, score x))
                             (all_scores_v3 f t (dict_get [] (crop_classes enc)) pr sc)))"
    by (simp only: distinct_map_sort_desc2)
  then have "distinct (map crop_name (take 10 (sort_desc2 (\<lambda>x. (is_season_match x, score x))
                             (all_scores_v3 f t (dict_get [] (crop_classes enc)) pr sc))))"
    by (rule distinct_map_take)
  then have d: "distinct (map crop_name ?items)"
    by (rule distinct_map_filter)
  have "map cropName recs = map crop_name ?items"
    using r by (rule try_map_names) (rule cropName_recommendation_v3)
  then show ?thesis using d by simp
qed

lemma names_recommend_v3:
  assumes "recommend_v3 h p f su du se t = Inr rs"
    and enc: "\<And>enc. v3_encoders p = Some enc \<Longrightarrow> distinct (dict_get [] (crop_classes enc))"
  shows "distinct (map cropName rs)"
proof -
  obtain sc where sc: "get_crops_for_season_v3 h p su du se = Inr sc"
    using assms(1) by (auto simp: recommend_v3_def split: sum.splits)
  then have dsc: "distinct sc"
    by (auto simp: get_crops_for_season_v3_def distinct_crops_from_map split: option.splits)
  have fb: "\<And>fb. fallback_predictions p f sc = Inr fb \<Longrightarrow> distinct (map cropName fb)"
    using dsc by (rule names_fallback_predictions [rotated])
  have ml: "\<And>recs. ml_recommendations_v3 p f t sc = Inr recs \<Longrightarrow> distinct (map cropName recs)"
    by (erule names_ml_recommendations_v3) (rule enc)
  have fin: "\<And>xs. distinct (map cropName xs)
                \<Longrightarrow> distinct (map cropName (take 5 (sort_desc suitabilityScore xs)))"
    by (intro distinct_map_take) (simp only: distinct_map_sort_desc)
  show ?thesis
    using assms(1) sc fb ml fin
    by (auto simp: recommend_v3_def names_supplement_v3 split: sum.splits if_splits)
qed

lemma sorted_recommend:
  "sorted_wrt (\<lambda>a b. suitabilityScore b \<le> suitabilityScore a) (recommend h p f su du se t)"
  unfolding recommend_def Let_def by (intro sorted_wrt_take sorted_sort_desc)

lemma sorted_fallback_predictions:
  assumes "fallback_predictions p f sc = Inr fb"
  shows "sorted_wrt (\<lambda>a b. suitabilityScore b \<le> suitabilityScore a) fb"
  using assms
  by (auto simp: fallback_predictions_def Let_def sorted_wrt_take sorted_sort_desc split: sum.splits)

lemma sorted_recommend_v3:
  assumes "recommend_v3 h p f su du se t = Inr rs"
  shows "sorted_wrt (\<lambda>a b. suitabilityScore b \<le> suitabilityScore a) rs"
  using assms
  by (auto simp: recommend_v3_def sorted_wrt_take sorted_sort_desc sorted_fallback_predictions
           split: sum.splits if_splits)

lemma length_recommend: "length (recommend h p f su du se t) \<le> 5"
  by (simp add: recommend_def Let_def)

lemma length_recommend_v3:
  assumes "recommend_v3 h p f su du se t = Inr rs"
  shows "length rs \<le> 5"
  using assms
  by (auto simp: recommend_v3_def fallback_predictions_def Let_def split: sum.splits if_splits)

lemma snd_predict:
  "snd (predict h p f)
     = recommend h p (fst (predict h p f)) (upper (dict_get [] (state f)))
         (upper (dict_get [] (district f))) (upper (dict_get ''KHARIF'' (season f)))
         (dict_get 25 (avg_temperature f))"
  by (simp add: predict_def Let_def)

lemma snd_predict_v3:
  "snd (predict_v3 h q f)
     = recommend_v3 h q (fst (predict_v3 h q f)) (upper (dict_get [] (state f)))
         (upper (dict_get [] (district f))) (upper (dict_get ''KHARIF'' (season f)))
         (dict_get 25 (avg_temperature f))"
  by (simp add: predict_v3_def Let_def)

subsection \<open>Yield bounds\<close>

lemma default_yield_at_least_500:
  "500 \<le> dict_get 2000 (map_of default_yields crop)"
proof (cases "map_of default_yields crop")
  case None
  then show ?thesis by (simp add: dict_get_def)
next
  case (Some y)
  then have "(crop, y) \<in> set default_yields" by (rule map_of_SomeD)
  then have "500 \<le> y" by (auto simp: default_yields_def)
  then show ?thesis using Some by (simp add: dict_get_def)
qed

lemma spread_of_large:
  fixes v :: real
  assumes "100 \<le> v"
  shows "v \<le> v * 1.3" and "50 \<le> v * 0.7" and "v \<le> v * 1.1"
  using assms by (simp_all add: field_simps)

lemma table_yield_bounds:
  assumes "0.2 \<le> ts"
  shows "100 \<le> expected (table_yield crop ts)"
    and "50 \<le> yield_min (table_yield crop ts)"
    and "expected (table_yield crop ts) \<le> yield_max (table_yield crop ts)"
proof -
  let ?b = "dict_get 2000 (map_of default_yields crop)"
  have b: "500 \<le> ?b" by (rule default_yield_at_least_500)
  have "500 * 0.2 \<le> ?b * ts"
    using b assms by (intro mult_mono) simp_all
  then have e: "100 \<le> ?b * ts" by simp
  then have "of_int 100 \<le> ?b * ts" by simp
  then have "of_int 100 \<le> py_round 0 (?b * ts)" by (rule py_round0_ge)
  then show "100 \<le> expected (table_yield crop ts)"
    by (simp add: table_yield_def Let_def)
  have "of_int 50 \<le> ?b * ts * 0.7" using spread_of_large(2) [OF e] by simp
  then have "of_int 50 \<le> py_round 0 (?b * ts * 0.7)" by (rule py_round0_ge)
  then show "50 \<le> yield_min (table_yield crop ts)"
    by (simp add: table_yield_def Let_def)
  have "?b * ts \<le> ?b * ts * 1.3" using e by (rule spread_of_large(1))
  then have "py_round 0 (?b * ts) \<le> py_round 0 (?b * ts * 1.3)" by (rule py_round_mono)
  then show "expected (table_yield crop ts) \<le> yield_max (table_yield crop ts)"
    by (simp add: table_yield_def Let_def)
qed

lemma bounded_yield_bounds:
  shows "100 \<le> expected (bounded_yield y historical)"
    and "50 \<le> yield_min (bounded_yield y historical)"
    and "expected (bounded_yield y historical) \<le> yield_max (bounded_yield y historical)"
proof -
  obtain e0 mn0 mx0 where b: "blend_yield y historical = (e0, mn0, mx0)"
    by (cases "blend_yield y historical") auto
  have "of_int 100 \<le> max 100 e0" by simp
  then have "of_int 100 \<le> py_round 0 (max 100 e0)" by (rule py_round0_ge)
  then show "100 \<le> expected (bounded_yield y historical)"
    by (simp add: bounded_yield_def Let_def b)
  have "of_int 50 \<le> max 50 mn0" by simp
  then have "of_int 50 \<le> py_round 0 (max 50 mn0)" by (rule py_round0_ge)
  then show "50 \<le> yield_min (bounded_yield y historical)"
    by (simp add: bounded_yield_def Let_def b)
  have "100 \<le> max 100 e0" by simp
  then have "max 100 e0 \<le> max 100 e0 * 1.1" by (rule spread_of_large(3))
  then have "max 100 e0 \<le> max (max 100 e0 * 1.1) mx0" by (rule max.coboundedI1)
  then have "py_round 0 (max 100 e0) \<le> py_round 0 (max (max 100 e0 * 1.1) mx0)"
    by (rule py_round_mono)
  then show "expected (bounded_yield y historical) \<le> yield_max (bounded_yield y historical)"
    by (simp add: bounded_yield_def Let_def b)
qed

lemma safe_default_yield_bounds:
  "100 \<le> expected safe_default_yield \<and> 50 \<le> yield_min safe_default_yield
   \<and> expected safe_default_yield \<le> yield_max safe_default_yield"
  by (simp add: safe_default_yield_def)

lemma profile_yield_min: "100 \<le> yield_min (profile_yield profile ts)"
proof -
  let ?e = "dict_get 2000 (map_of profile ''yield_mean'') * ts"
  let ?s = "dict_get 500 (map_of profile ''yield_std'')"
  have "of_int 100 \<le> max 100 (?e - ?s)" by simp
  then have "of_int 100 \<le> py_round 0 (max 100 (?e - ?s))" by (rule py_round0_ge)
  then show ?thesis by (simp add: profile_yield_def Let_def)
qed

text \<open>
  The handler of \<^verbatim>\<open>_predict_yield_ml\<close>: whatever the body raises, the function returns the
  safe default.
\<close>

lemma predict_yield_ml_handles:
  "predict_yield_ml_body p fv crop f = Inl e \<Longrightarrow> predict_yield_ml p fv crop f = safe_default_yield"
  by (simp add: predict_yield_ml_def)

lemma predict_yield_ml_raising_regressor:
  assumes "model_version p \<noteq> Some V3" and "yield_regressor p = Some (\<lambda>x. None)"
  shows "predict_yield_ml p fv crop f = safe_default_yield"
proof -
  have "\<exists>e. model_yield p fv crop f = Inl e"
    using assms(2) by (simp add: model_yield_def call_attr_def Let_def split: sum.splits option.splits)
  then obtain e where "model_yield p fv crop f = Inl e" by blast
  then have "predict_yield_ml_body p fv crop f = Inl e"
    using assms(1) by (simp add: predict_yield_ml_body_def Let_def)
  then show ?thesis by (rule predict_yield_ml_handles)
qed

subsection \<open>The rule-based path\<close>

lemma set_foldl_append:
  "set (foldl (\<lambda>acc r. if P acc r then acc @ [r] else acc) acc xs) \<subseteq> set acc \<union> set xs"
proof (induction xs arbitrary: acc)
  case Nil
  then show ?case by simp
next
  case (Cons x xs)
  have "set (foldl (\<lambda>acc r. if P acc r then acc @ [r] else acc)
               (if P acc x then acc @ [x] else acc) xs)
          \<subseteq> set (if P acc x then acc @ [x] else acc) \<union> set xs"
    by (rule Cons.IH)
  then show ?case by auto
qed

lemma set_supplement: "set (supplement n recs rule_recs) \<subseteq> set recs \<union> set rule_recs"
  unfolding supplement_def Let_def by (rule set_foldl_append)

lemma set_predict_with_rules:
  "set (predict_with_rules f sc)
     \<subseteq> rule_recommendation f (dict_get 25 (avg_temperature f)) ` set sc"
  by (auto simp: predict_with_rules_def Let_def set_sort_desc)

lemma recommend_rule_based:
  assumes "\<not> use_ml_model p"
  shows "set (recommend h p f su du se t)
           \<subseteq> rule_recommendation f (dict_get 25 (avg_temperature f))
               ` set (get_crops_for_season h p su du se)"
proof -
  let ?rules = "predict_with_rules f (get_crops_for_season h p su du se)"
  let ?recs = "if length ?rules < 5 then supplement 5 ?rules ?rules else ?rules"
  have "set ?recs \<subseteq> set ?rules"
    using set_supplement [of 5 ?rules ?rules] by auto
  moreover have "set (recommend h p f su du se t) \<subseteq> set ?recs"
    using assms set_take_subset [of 5 "sort_desc suitabilityScore ?recs"]
    by (simp add: recommend_def Let_def set_sort_desc)
  ultimately show ?thesis
    using set_predict_with_rules [of f "get_crops_for_season h p su du se"] by blast
qed

lemma rule_recommendation_score:
  "suitabilityScore (rule_recommendation f t c) = py_round 1 (50 + calculate_temp_suitability c t * 40)"
  by (simp add: rule_recommendation_def Let_def)

lemma rule_score_range:
  "58 \<le> py_round 1 (50 + calculate_temp_suitability c t * 40)
   \<and> py_round 1 (50 + calculate_temp_suitability c t * 40) \<le> 90"
proof -
  let ?ts = "calculate_temp_suitability c t"
  have r: "0.2 \<le> ?ts" "?ts \<le> 1"
    using temp_suitability_range [of c t] by simp_all
  have "of_int 580 / 10 \<le> 50 + ?ts * 40" using r by simp
  then have lo: "of_int 580 / 10 \<le> py_round 1 (50 + ?ts * 40)" by (rule py_round1_ge)
  have "50 + ?ts * 40 \<le> of_int 900 / 10" using r by simp
  then have hi: "py_round 1 (50 + ?ts * 40) \<le> of_int 900 / 10" by (rule py_round1_le)
  show ?thesis using lo hi by simp
qed

lemma load_models_empty: "load_models empty_model_dir = rule_based fresh_predictor"
  by (simp add: load_models_def empty_model_dir_def file_exists_def)

lemma rabi_default_crops:
  "set (get_crops_for_season h (load_models empty_model_dir) su du ''RABI'')
     = set [''CEREALS_WHEAT'', ''CEREALS_BARLEY'', ''PULSES'', ''OILSEEDS'', ''VEGETABLES'',
            ''SPICES'', ''TOBACCO'']"
proof -
  have u: "upper ''RABI'' = ''RABI''"
    by (simp add: upper_def char_upper_def)
  have m: "map_of DEFAULT_SEASON_CROPS ''RABI''
             = Some [''CEREALS_WHEAT'', ''CEREALS_BARLEY'', ''PULSES'', ''OILSEEDS'',
                     ''VEGETABLES'', ''SPICES'', ''TOBACCO'']"
    by (simp add: DEFAULT_SEASON_CROPS_def)
  have "season_crop_map (load_models empty_model_dir) = None"
    by (simp add: load_models_empty rule_based_def fresh_predictor_def)
  then show ?thesis
    by (simp add: get_crops_for_season_def default_crops_def u m dict_get_Some set_py_set)
qed

subsection \<open>Range of the scores\<close>

lemma py_round1_within:
  assumes "of_int a / 10 \<le> x" and "x \<le> of_int b / 10"
  shows "of_int a / 10 \<le> py_round 1 x \<and> py_round 1 x \<le> of_int b / 10"
  using assms by (intro conjI py_round1_ge py_round1_le)

lemma season_adjust_range:
  fixes s ts :: real
  assumes "0 \<le> s" and "s \<le> 100" and "0.2 \<le> ts" and "ts \<le> 1"
  shows "0 \<le> min 100 (s * 1.25) + ts * 10" and "min 100 (s * 1.25) + ts * 10 \<le> 110"
    and "0 \<le> s * 0.35" and "s * 0.35 \<le> 110"
proof -
  have m: "0 \<le> min 100 (s * 1.25)" "min 100 (s * 1.25) \<le> 100"
    using assms by simp_all
  have t: "0 \<le> ts * 10" "ts * 10 \<le> 10"
    using assms by simp_all
  show "0 \<le> min 100 (s * 1.25) + ts * 10" using m t by linarith
  show "min 100 (s * 1.25) + ts * 10 \<le> 110" using m t by linarith
  show "0 \<le> s * 0.35" using assms by simp
  show "s * 0.35 \<le> 110" using assms by (simp add: field_simps)
qed

lemma penalty_range:
  fixes a k u :: real
  assumes "0 \<le> a" and "a \<le> u" and "0 \<le> k" and "k \<le> 1"
  shows "0 \<le> (if c then a * k else a) \<and> (if c then a * k else a) \<le> u"
proof -
  have "a * k \<le> a * 1" using assms by (intro mult_left_mono) simp_all
  then show ?thesis using assms by simp
qed

lemma score_candidate_range:
  "0 \<le> score (score_candidate p pr f t idx c m) \<and> score (score_candidate p pr f t idx c m) \<le> 110"
proof -
  let ?s = "calculate_suitability_score_ml p idx pr f"
  let ?ts = "calculate_temp_suitability c t"
  let ?a = "if m then min 100 (?s * 1.25) + ?ts * 10 else ?s * 0.35"
  have r: "0 \<le> ?s" "?s \<le> 100"
    using suitability_score_ml_range [of p idx pr f] by simp_all
  have ts: "0.2 \<le> ?ts" "?ts \<le> 1"
    using temp_suitability_range [of c t] by simp_all
  have a: "0 \<le> ?a" "?a \<le> 110"
    using season_adjust_range [OF r ts] by simp_all
  have e: "score (score_candidate p pr f t idx c m) = (if ?ts < 0.5 then ?a * 0.8 else ?a)"
    by (simp add: score_candidate_def Let_def)
  show ?thesis
    unfolding e using a by (intro penalty_range) simp_all
qed

lemma score_candidate_v3_range:
  "0 \<le> score (score_candidate_v3 f t c pr m) \<and> score (score_candidate_v3 f t c pr m) \<le> 100"
proof -
  let ?s = "calculate_suitability_score_v3 c pr f"
  let ?ts = "calculate_temp_suitability c t"
  let ?a = "if m then min 100 (?s * 1.3) else ?s * 0.4"
  have r: "0 \<le> ?s" "?s \<le> 100"
    using suitability_score_v3_range [of c pr f] by simp_all
  have "?s * 0.4 \<le> ?s * 1" using r by (intro mult_left_mono) simp_all
  then have a: "0 \<le> ?a" "?a \<le> 100"
    using r by simp_all
  have e: "score (score_candidate_v3 f t c pr m) = (if ?ts < 0.5 then ?a * 0.7 else ?a)"
    by (simp add: score_candidate_v3_def Let_def)
  show ?thesis
    unfolding e using a by (intro penalty_range) simp_all
qed

lemma rounded_score_range:
  assumes "0 \<le> x" and "x \<le> 110"
  shows "0 \<le> py_round 1 x \<and> py_round 1 x \<le> 110"
proof -
  have "of_int 0 / 10 \<le> x" and "x \<le> of_int 1100 / 10" using assms by simp_all
  then have "of_int 0 / 10 \<le> py_round 1 x \<and> py_round 1 x \<le> of_int 1100 / 10"
    by (rule py_round1_within)
  then show ?thesis by simp
qed

lemma rounded_score_range_100:
  assumes "0 \<le> x" and "x \<le> 100"
  shows "0 \<le> py_round 1 x \<and> py_round 1 x \<le> 100"
proof -
  have "of_int 0 / 10 \<le> x" and "x \<le> of_int 1000 / 10" using assms by simp_all
  then have "of_int 0 / 10 \<le> py_round 1 x \<and> py_round 1 x \<le> of_int 1000 / 10"
    by (rule py_round1_within)
  then show ?thesis by simp
qed

lemma suitabilityScore_build_recommendation:
  "suitabilityScore (build_recommendation p fv f su du item) = py_round 1 (score item)"
  by (simp add: build_recommendation_def Let_def)

lemma scores_ml_recommendations:
  assumes "ml_recommendations p f su du t sc = Inr recs" and "r \<in> set recs"
  shows "0 \<le> suitabilityScore r \<and> suitabilityScore r \<le> 110"
proof -
  obtain pr classes where
    recs: "recs = map (build_recommendation p (prepare_features p f) f su du)
                     (filter (\<lambda>item. \<not> score item < 30)
                        (take 15 (sort_desc2 (\<lambda>x. (is_season_match x, score x))
                                    (all_scores p pr f t classes sc))))"
    using assms(1)
    by (auto simp: ml_recommendations_def Let_def split: sum.splits option.splits)
  then obtain item where
    item: "item \<in> set (take 15 (sort_desc2 (\<lambda>x. (is_season_match x, score x))
                                   (all_scores p pr f t classes sc)))"
    and r: "r = build_recommendation p (prepare_features p f) f su du item"
    using assms(2) by auto
  have "item \<in> set (all_scores p pr f t classes sc)"
    using item set_take_subset [of 15 "sort_desc2 (\<lambda>x. (is_season_match x, score x))
                                         (all_scores p pr f t classes sc)"]
    by (auto simp: set_sort_desc2)
  then obtain idx c m where "item = score_candidate p pr f t idx c m"
    by (auto simp: all_scores_def)
  then have "0 \<le> score item \<and> score item \<le> 110"
    by (simp add: score_candidate_range)
  then show ?thesis
    unfolding r suitabilityScore_build_recommendation by (intro rounded_score_range) simp_all
qed

lemma scores_predict_with_rules:
  assumes "r \<in> set (predict_with_rules f sc)"
  shows "0 \<le> suitabilityScore r \<and> suitabilityScore r \<le> 110"
proof -
  obtain c where "r = rule_recommendation f (dict_get 25 (avg_temperature f)) c"
    using assms set_predict_with_rules [of f sc] by auto
  then show ?thesis
    using rule_score_range [of c "dict_get 25 (avg_temperature f)"]
    by (simp add: rule_recommendation_score)
qed

lemma scores_recommend:
  assumes "r \<in> set (recommend h p f su du se t)"
  shows "0 \<le> suitabilityScore r \<and> suitabilityScore r \<le> 110"
proof -
  let ?sc = "get_crops_for_season h p su du se"
  let ?rules = "predict_with_rules f ?sc"
  let ?recs = "if use_ml_model p
               then (case ml_recommendations p f su du t ?sc of
                       Inr recs \<Rightarrow> recs | Inl e \<Rightarrow> ?rules)
               else ?rules"
  let ?recs' = "if length ?recs < 5 then supplement 5 ?recs ?rules else ?recs"
  have "r \<in> set (take 5 (sort_desc suitabilityScore ?recs'))"
    using assms by (simp add: recommend_def Let_def)
  then have "r \<in> set ?recs'"
    using set_take_subset [of 5 "sort_desc suitabilityScore ?recs'"]
    by (auto simp: set_sort_desc)
  then have "r \<in> set ?recs \<or> r \<in> set ?rules"
    using set_supplement [of 5 ?recs ?rules] by (auto split: if_splits)
  then show ?thesis
    using scores_predict_with_rules [of r f ?sc] scores_ml_recommendations [of p f su du t ?sc _ r]
    by (auto split: if_splits sum.splits)
qed

lemma try_map_member:
  assumes "try_map g xs = Inr ys" and "y \<in> set ys"
  shows "\<exists>x \<in> set xs. g x = Inr y"
  using assms
proof (induction xs arbitrary: ys)
  case Nil
  then show ?case by simp
next
  case (Cons x xs)
  then obtain z zs where gx: "g x = Inr z" and rest: "try_map g xs = Inr zs" and ys: "ys = z # zs"
    by (auto split: sum.splits)
  show ?case
  proof (cases "y = z")
    case True
    then show ?thesis using gx by simp
  next
    case False
    then have "y \<in> set zs" using Cons.prems(2) ys by simp
    then have "\<exists>x \<in> set xs. g x = Inr y" using rest Cons.IH by blast
    then show ?thesis by auto
  qed
qed

lemma suitabilityScore_recommendation_v3:
  "recommendation_v3 p f crop score_v is_match = Inr r \<Longrightarrow> suitabilityScore r = py_round 1 score_v"
  by (auto simp: recommendation_v3_def split: sum.splits)

lemma scores_fallback_predictions:
  assumes "fallback_predictions p f sc = Inr fb" and "r \<in> set fb"
  shows "0 \<le> suitabilityScore r \<and> suitabilityScore r \<le> 100"
proof -
  let ?t = "dict_get 25 (avg_temperature f)"
  obtain rs where rs: "try_map (\<lambda>crop. recommendation_v3 p f crop
                                  (50 + calculate_temp_suitability crop ?t * 40) True) sc = Inr rs"
    and fb: "fb = take 5 (sort_desc suitabilityScore rs)"
    using assms(1) by (auto simp: fallback_predictions_def Let_def split: sum.splits)
  have "r \<in> set rs"
    using assms(2) fb set_take_subset [of 5 "sort_desc suitabilityScore rs"]
    by (auto simp: set_sort_desc)
  then obtain c where "recommendation_v3 p f c (50 + calculate_temp_suitability c ?t * 40) True = Inr r"
    using try_map_member [OF rs] by blast
  then have "suitabilityScore r = py_round 1 (50 + calculate_temp_suitability c ?t * 40)"
    by (rule suitabilityScore_recommendation_v3)
  then show ?thesis
    using rule_score_range [of c ?t] by simp
qed

lemma scores_ml_recommendations_v3:
  assumes "ml_recommendations_v3 p f t sc = Inr recs" and "r \<in> set recs"
  shows "0 \<le> suitabilityScore r \<and> suitabilityScore r \<le> 100"
proof -
  obtain pr classes where
    tm: "try_map (\<lambda>item. recommendation_v3 p f (crop_name item) (score item) (is_season_match item))
           (filter (\<lambda>item. \<not> score item < 30)
              (take 10 (sort_desc2 (\<lambda>x. (is_season_match x, score x))
                          (all_scores_v3 f t classes pr sc))))
         = Inr recs"
    using assms(1)
    by (auto simp: ml_recommendations_v3_def split: sum.splits option.splits)
  obtain item where
    item: "item \<in> set (take 10 (sort_desc2 (\<lambda>x. (is_season_match x, score x))
                                   (all_scores_v3 f t classes pr sc)))"
    and r: "recommendation_v3 p f (crop_name item) (score item) (is_season_match item) = Inr r"
    using try_map_member [OF tm assms(2)] by auto
  have "item \<in> set (all_scores_v3 f t classes pr sc)"
    using item set_take_subset [of 10 "sort_desc2 (\<lambda>x. (is_season_match x, score x))
                                         (all_scores_v3 f t classes pr sc)"]
    by (auto simp: set_sort_desc2)
  then obtain c pb m where "item = score_candidate_v3 f t c pb m"
    by (auto simp: all_scores_v3_def)
  then have "0 \<le> score item \<and> score item \<le> 100"
    by (simp add: score_candidate_v3_range)
  then have "0 \<le> py_round 1 (score item) \<and> py_round 1 (score item) \<le> 100"
    by (intro rounded_score_range_100) simp_all
  then show ?thesis
    using suitabilityScore_recommendation_v3 [OF r] by simp
qed

lemma set_supplement_v3: "set (supplement_v3 recs fb) \<subseteq> set recs \<union> set fb"
  unfolding supplement_v3_def Let_def by (rule set_foldl_append)

lemma scores_recommend_v3:
  assumes "recommend_v3 h p f su du se t = Inr rs" and "r \<in> set rs"
  shows "0 \<le> suitabilityScore r \<and> suitabilityScore r \<le> 100"
proof -
  obtain sc where sc: "get_crops_for_season_v3 h p su du se = Inr sc"
    using assms(1) by (auto simp: recommend_v3_def split: sum.splits)
  have fin: "\<And>xs. r \<in> set (take 5 (sort_desc suitabilityScore xs)) \<Longrightarrow> r \<in> set xs"
  proof -
    fix xs
    assume "r \<in> set (take 5 (sort_desc suitabilityScore xs))"
    then show "r \<in> set xs"
      using set_take_subset [of 5 "sort_desc suitabilityScore xs"] by (auto simp: set_sort_desc)
  qed
  have sup: "\<And>recs fb. r \<in> set (supplement_v3 recs fb) \<Longrightarrow> r \<in> set recs \<or> r \<in> set fb"
    using set_supplement_v3 by blast
  show ?thesis
    using assms sc
    by (auto simp: recommend_v3_def split: sum.splits if_splits
             dest!: fin sup
             dest: scores_fallback_predictions scores_ml_recommendations_v3)
qed


text \<open>What holds of every list that \<^verbatim>\<open>predict\<close> returns, in either class.\<close>

lemma predict_length_and_scores:
  "length (snd (predict h p f)) \<le> 5
   \<and> (\<forall>r \<in> set (snd (predict h p f)). 0 \<le> suitabilityScore r \<and> suitabilityScore r \<le> 110)"
  unfolding snd_predict using length_recommend scores_recommend by blast

lemma predict_v3_length_and_scores:
  assumes "snd (predict_v3 h q f) = Inr rs"
  shows "length rs \<le> 5
         \<and> (\<forall>r \<in> set rs. 0 \<le> suitabilityScore r \<and> suitabilityScore r \<le> 100)"
  using assms unfolding snd_predict_v3
  using length_recommend_v3 scores_recommend_v3 by blast

section \<open>Claims\<close>

text \<open>
  C2. For every crop category with a range \<open>[lo, hi]\<close> in the table and every temperature
  \<open>t\<close>: inside the range the suitability is \<open>1 - 0.2 * (|t - mid| / half-width)\<close>, which is
  at least 0.8 and is 1 at the midpoint; below the range it is
  \<open>max 0.2 (0.8 - 0.05 * (lo - t))\<close>; above the range it is
  \<open>max 0.2 (0.8 - 0.05 * (t - hi))\<close>. For a category that is not in the table the
  suitability is 0.7 at every temperature.
\<close>

theorem C2_temp_suitability:
  "(map_of CROP_TEMP_RANGES crop = Some (lo, hi) \<longrightarrow>
      (lo \<le> t \<and> t \<le> hi \<longrightarrow>
         calculate_temp_suitability crop t = 1 - 0.2 * (\<bar>t - (lo + hi) / 2\<bar> / ((hi - lo) / 2))
         \<and> 0.8 \<le> calculate_temp_suitability crop t)
      \<and> calculate_temp_suitability crop ((lo + hi) / 2) = 1
      \<and> (t < lo \<longrightarrow> calculate_temp_suitability crop t = max 0.2 (0.8 - 0.05 * (lo - t)))
      \<and> (hi < t \<longrightarrow> calculate_temp_suitability crop t = max 0.2 (0.8 - 0.05 * (t - hi))))
   \<and> (map_of CROP_TEMP_RANGES crop = None \<longrightarrow> calculate_temp_suitability crop t = 0.7)"
proof (intro conjI impI)
  assume m: "map_of CROP_TEMP_RANGES crop = Some (lo, hi)"
  have lt: "lo < hi" using m by (rule temp_range_proper)
  show "calculate_temp_suitability crop ((lo + hi) / 2) = 1"
    using lt by (simp add: temp_suitability_inside [OF m])
  {
    assume "t < lo"
    then show "calculate_temp_suitability crop t = max 0.2 (0.8 - 0.05 * (lo - t))"
      by (rule temp_suitability_below [OF m])
  }
  {
    assume "hi < t"
    then show "calculate_temp_suitability crop t = max 0.2 (0.8 - 0.05 * (t - hi))"
      by (rule temp_suitability_above [OF m])
  }
  {
    assume inside: "lo \<le> t \<and> t \<le> hi"
    then have i1: "lo \<le> t" and i2: "t \<le> hi" by simp_all
    show eq: "calculate_temp_suitability crop t = 1 - 0.2 * (\<bar>t - (lo + hi) / 2\<bar> / ((hi - lo) / 2))"
      by (rule temp_suitability_inside [OF m i1 i2])
    have "\<bar>t - (lo + hi) / 2\<bar> / ((hi - lo) / 2) \<le> 1"
      using lt i1 i2 by (rule inside_distance_le_one)
    moreover have "0 \<le> \<bar>t - (lo + hi) / 2\<bar> / ((hi - lo) / 2)"
      using lt by simp
    ultimately have "0.8 \<le> 1 - 0.2 * (\<bar>t - (lo + hi) / 2\<bar> / ((hi - lo) / 2))"
      by (intro unit_affine)
    then show "0.8 \<le> calculate_temp_suitability crop t"
      by (simp only: eq)
  }
next
  assume "map_of CROP_TEMP_RANGES crop = None"
  then show "calculate_temp_suitability crop t = 0.7"
    by (rule temp_suitability_unknown)
qed

theorem C2_temp_suitability_witness:
  "map_of CROP_TEMP_RANGES ''CEREALS_WHEAT'' = Some (10, 25)
   \<and> calculate_temp_suitability ''CEREALS_WHEAT'' 20 = 14 / 15
   \<and> calculate_temp_suitability ''CEREALS_WHEAT'' (35 / 2) = 1
   \<and> calculate_temp_suitability ''CEREALS_WHEAT'' 4 = 1 / 2
   \<and> calculate_temp_suitability ''CEREALS_WHEAT'' 45 = 1 / 5
   \<and> map_of CROP_TEMP_RANGES ''BAMBOO'' = None
   \<and> calculate_temp_suitability ''BAMBOO'' 20 = 7 / 10"
proof -
  have m: "map_of CROP_TEMP_RANGES ''CEREALS_WHEAT'' = Some (10, 25)"
    by (simp add: CROP_TEMP_RANGES_def)
  have n: "map_of CROP_TEMP_RANGES ''BAMBOO'' = None"
    by (simp add: CROP_TEMP_RANGES_def)
  show ?thesis
    using m n
      C2_temp_suitability [of "''CEREALS_WHEAT''" 10 25 20]
      C2_temp_suitability [of "''CEREALS_WHEAT''" 10 25 4]
      C2_temp_suitability [of "''CEREALS_WHEAT''" 10 25 45]
      C2_temp_suitability [of "''BAMBOO''" 0 0 20]
    by simp
qed

text \<open>
  C5. For every candidate, with the model's probabilities, the temperature and every other
  input fixed, the score computed under season mismatch is strictly below the score
  computed under season match: in \<^verbatim>\<open>CropPredictor.predict\<close> for every probability vector,
  in \<^verbatim>\<open>CropPredictorV3.predict\<close> for every probability that is not negative.
\<close>

theorem C5_season_mismatch_lowers_score:
  "score (score_candidate p probabilities f temperature idx c False)
     < score (score_candidate p probabilities f temperature idx c True)
   \<and> (0 \<le> prob \<longrightarrow>
        score (score_candidate_v3 f temperature c prob False)
          < score (score_candidate_v3 f temperature c prob True))"
  by (simp add: score_candidate_strict score_candidate_v3_strict)


theorem C5_season_mismatch_lowers_score_witness:
  "(0::real) \<le> 1 / 2
   \<and> score (score_candidate_v3 no_features 20 ''PULSES'' (1 / 2) False)
       < score (score_candidate_v3 no_features 20 ''PULSES'' (1 / 2) True)"
  using C5_season_mismatch_lowers_score
          [of fresh_predictor "[]" no_features 20 0 "''PULSES''" "1 / 2"]
  by simp

text \<open>
  C6. As stated (a prediction call leaves every key and value of the caller's dictionary
  unchanged) the claim fails: both classes assign the upper-cased state, district and
  season to the dictionary they are given. What holds: the call changes the dictionary
  at the keys \<^verbatim>\<open>state\<close>, \<^verbatim>\<open>district\<close> and \<^verbatim>\<open>season\<close> only, leaving there the upper-cased
  values (of the empty string, the empty string and \<^verbatim>\<open>KHARIF\<close> when the key was
  absent); every other key keeps its value.
\<close>

theorem C6_features_after_predict:
  "fst (predict h p f)
     = f\<lparr>state := Some (upper (dict_get [] (state f))),
         district := Some (upper (dict_get [] (district f))),
         season := Some (upper (dict_get ''KHARIF'' (season f)))\<rparr>
   \<and> fst (predict_v3 h q f)
     = f\<lparr>state := Some (upper (dict_get [] (state f))),
         district := Some (upper (dict_get [] (district f))),
         season := Some (upper (dict_get ''KHARIF'' (season f)))\<rparr>"
  by (simp add: predict_features predict_v3_features)

theorem C6_dictionary_is_modified:
  "fst (predict (\<lambda>c. 0) (load_models empty_model_dir) (no_features\<lparr>state := Some ''Punjab''\<rparr>))
     \<noteq> no_features\<lparr>state := Some ''Punjab''\<rparr>"
proof
  assume "fst (predict (\<lambda>c. 0) (load_models empty_model_dir) (no_features\<lparr>state := Some ''Punjab''\<rparr>))
     = no_features\<lparr>state := Some ''Punjab''\<rparr>"
  then have "state (fst (predict (\<lambda>c. 0) (load_models empty_model_dir) (no_features\<lparr>state := Some ''Punjab''\<rparr>)))
     = state (no_features\<lparr>state := Some ''Punjab''\<rparr>)"
    by simp
  then show False
    by (simp add: predict_features dict_get_Some upper_Punjab)
qed

text \<open>
  C10. Within one process (one iteration order \<open>h\<close> of sets) and with the loaded artifacts
  unchanged, \<^verbatim>\<open>predict\<close> is a function of the artifacts and the dictionary, and a second
  call on the dictionary as the first call left it returns the same list and leaves the
  dictionary as it is. The classifier, scaler and regressor are functions of their input.
\<close>

theorem C10_predict_twice:
  "predict h p (fst (predict h p f)) = predict h p f
   \<and> predict_v3 h q (fst (predict_v3 h q f)) = predict_v3 h q f"
  by (simp add: predict_again predict_v3_again)

text \<open>
  C9. When the encoder table is a lookup (its crop labels are pairwise distinct), the crop
  names of every list that \<^verbatim>\<open>predict\<close> returns are pairwise distinct, in both classes and
  on every path: the model-informed pass alone, the pass supplemented from the rules (the
  supplement skips the names already present), and the rule-based path.
\<close>

theorem C9_crop_names_distinct:
  "(proper_lookup (encoders p) \<longrightarrow> distinct (map cropName (snd (predict h p f))))
   \<and> ((case v3_encoders q of None \<Rightarrow> True | Some enc \<Rightarrow> proper_lookup enc) \<longrightarrow>
        (case snd (predict_v3 h q f) of
           Inl e \<Rightarrow> True
         | Inr rs \<Rightarrow> distinct (map cropName rs)))"
proof (intro conjI impI)
  assume "proper_lookup (encoders p)"
  then have "distinct (dict_get [] (crop_classes (encoders p)))"
    by (simp add: proper_lookup_def)
  then show "distinct (map cropName (snd (predict h p f)))"
    unfolding snd_predict by (rule names_recommend)
next
  assume a: "case v3_encoders q of None \<Rightarrow> True | Some enc \<Rightarrow> proper_lookup enc"
  have enc: "\<And>enc. v3_encoders q = Some enc \<Longrightarrow> distinct (dict_get [] (crop_classes enc))"
    using a by (simp add: proper_lookup_def)
  show "case snd (predict_v3 h q f) of Inl e \<Rightarrow> True | Inr rs \<Rightarrow> distinct (map cropName rs)"
  proof (cases "snd (predict_v3 h q f)")
    case (Inl e)
    then show ?thesis by simp
  next
    case (Inr rs)
    then have "distinct (map cropName rs)"
      unfolding snd_predict_v3 by (rule names_recommend_v3) (rule enc)
    then show ?thesis using Inr by simp
  qed
qed

theorem C9_crop_names_distinct_witness:
  "proper_lookup (encoders (load_models (v3_dir [''CEREALS_RICE'', ''CEREALS_WHEAT''] [0.6, 0.4] Absent)))
   \<and> length (snd (predict (\<lambda>c. 0) (load_models (v3_dir [''CEREALS_RICE'', ''CEREALS_WHEAT''] [0.6, 0.4] Absent))
                     (reading ''Kharif'' 27.5 60))) = 5
   \<and> distinct (map cropName
        (snd (predict (\<lambda>c. 0) (load_models (v3_dir [''CEREALS_RICE'', ''CEREALS_WHEAT''] [0.6, 0.4] Absent))
                (reading ''Kharif'' 27.5 60))))
   \<and> \<not> isl (snd (predict_v3 (\<lambda>c. 0)
                   (load_models_v3 (v3_dir [''CEREALS_RICE'', ''CEREALS_WHEAT''] [0.6, 0.4] Absent))
                   (reading ''Kharif'' 27.5 60)))
   \<and> distinct (map cropName
        (projr (snd (predict_v3 (\<lambda>c. 0)
                       (load_models_v3 (v3_dir [''CEREALS_RICE'', ''CEREALS_WHEAT''] [0.6, 0.4] Absent))
                       (reading ''Kharif'' 27.5 60)))))"
proof -
  let ?d = "v3_dir [''CEREALS_RICE'', ''CEREALS_WHEAT''] [0.6, 0.4] Absent"
  let ?f = "reading ''Kharif'' 27.5 60"
  have h1: "proper_lookup (encoders (load_models ?d))"
    by code_simp
  have h2: "case v3_encoders (load_models_v3 ?d) of None \<Rightarrow> True | Some enc \<Rightarrow> proper_lookup enc"
    by code_simp
  have l: "length (snd (predict (\<lambda>c. 0) (load_models ?d) ?f)) = 5"
    by code_simp
  have r: "\<not> isl (snd (predict_v3 (\<lambda>c. 0) (load_models_v3 ?d) ?f))"
    by code_simp
  show ?thesis
    using C9_crop_names_distinct [where p = "load_models ?d" and h = "\<lambda>c. 0" and f = ?f
                                          and q = "load_models_v3 ?d"] h1 h2 l r
    by (auto split: sum.splits)
qed

text \<open>
  C3. As stated (the returned list is ordered by season match first, then by score) the
  claim fails: that order is given to the candidate list \<^verbatim>\<open>all_scores\<close>, and the list
  built from it is sorted again, by \<^verbatim>\<open>suitabilityScore\<close> alone, before it is returned.
  What holds: in both classes the candidate list is in descending order of the pair
  (season match, score); the returned list is in descending order of \<^verbatim>\<open>suitabilityScore\<close>,
  whatever the season match of its entries; and the sort that yields it is stable, so that
  entries of equal score keep the order in which they were appended.
\<close>

theorem C3_sorted_by_score:
  "sorted_wrt (\<lambda>a b. suitabilityScore b \<le> suitabilityScore a) (snd (predict h p f))
   \<and> (case snd (predict_v3 h q f) of
         Inl e \<Rightarrow> True
       | Inr rs \<Rightarrow> sorted_wrt (\<lambda>a b. suitabilityScore b \<le> suitabilityScore a) rs)
   \<and> sorted_wrt (\<lambda>a b. (is_season_match b, score b) \<le> (is_season_match a, score a))
        (sort_desc2 (\<lambda>x. (is_season_match x, score x))
           (all_scores p probabilities f temperature classes season_crops))
   \<and> sorted_wrt (\<lambda>a b. (is_season_match b, score b) \<le> (is_season_match a, score a))
        (sort_desc2 (\<lambda>x. (is_season_match x, score x))
           (all_scores_v3 f temperature classes probabilities season_crops))
   \<and> filter (\<lambda>r. suitabilityScore r = v) (sort_desc suitabilityScore recommendations)
       = filter (\<lambda>r. suitabilityScore r = v) recommendations"
proof (intro conjI)
  show "sorted_wrt (\<lambda>a b. suitabilityScore b \<le> suitabilityScore a) (snd (predict h p f))"
    unfolding snd_predict by (rule sorted_recommend)
next
  show "case snd (predict_v3 h q f) of
          Inl e \<Rightarrow> True
        | Inr rs \<Rightarrow> sorted_wrt (\<lambda>a b. suitabilityScore b \<le> suitabilityScore a) rs"
  proof (cases "snd (predict_v3 h q f)")
    case (Inl e)
    then show ?thesis by simp
  next
    case (Inr rs)
    then have "sorted_wrt (\<lambda>a b. suitabilityScore b \<le> suitabilityScore a) rs"
      unfolding snd_predict_v3 by (rule sorted_recommend_v3)
    then show ?thesis using Inr by simp
  qed
next
  show "sorted_wrt (\<lambda>a b. (is_season_match b, score b) \<le> (is_season_match a, score a))
          (sort_desc2 (\<lambda>x. (is_season_match x, score x))
             (all_scores p probabilities f temperature classes season_crops))"
    by (rule sorted_sort_desc2)
next
  show "sorted_wrt (\<lambda>a b. (is_season_match b, score b) \<le> (is_season_match a, score a))
          (sort_desc2 (\<lambda>x. (is_season_match x, score x))
             (all_scores_v3 f temperature classes probabilities season_crops))"
    by (rule sorted_sort_desc2)
next
  show "filter (\<lambda>r. suitabilityScore r = v) (sort_desc suitabilityScore recommendations)
          = filter (\<lambda>r. suitabilityScore r = v) recommendations"
    by (rule sort_desc_stable)
qed

theorem C3_sorted_by_score_witness:
  "map suitabilityScore
     (snd (predict (\<lambda>c. 0) (load_models (v3_dir [''CEREALS_WHEAT'', ''CEREALS_MILLETS''] [0, 1] Absent))
             (reading ''Rabi'' 45 90)))
     = [62, 62, 58, 35, 31.6]
   \<and> sorted_wrt (\<lambda>a b. suitabilityScore b \<le> suitabilityScore a)
        (snd (predict (\<lambda>c. 0) (load_models (v3_dir [''CEREALS_WHEAT'', ''CEREALS_MILLETS''] [0, 1] Absent))
                (reading ''Rabi'' 45 90)))
   \<and> \<not> isl (snd (predict_v3 (\<lambda>c. 0)
                   (load_models_v3 (v3_dir [''CEREALS_WHEAT'', ''CEREALS_MILLETS''] [0, 1] Absent))
                   (reading ''Rabi'' 45 90)))
   \<and> sorted_wrt (\<lambda>a b. suitabilityScore b \<le> suitabilityScore a)
        (projr (snd (predict_v3 (\<lambda>c. 0)
                       (load_models_v3 (v3_dir [''CEREALS_WHEAT'', ''CEREALS_MILLETS''] [0, 1] Absent))
                       (reading ''Rabi'' 45 90))))"
proof -
  let ?d = "v3_dir [''CEREALS_WHEAT'', ''CEREALS_MILLETS''] [0, 1] Absent"
  let ?f = "reading ''Rabi'' 45 90"
  note c3 = C3_sorted_by_score [where p = "load_models ?d" and h = "\<lambda>c. 0" and f = ?f
                                  and q = "load_models_v3 ?d"]
  have l: "map suitabilityScore (snd (predict (\<lambda>c. 0) (load_models ?d) ?f)) = [62, 62, 58, 35, 31.6]"
    by code_simp
  have r: "\<not> isl (snd (predict_v3 (\<lambda>c. 0) (load_models_v3 ?d) ?f))"
    by code_simp
  have a: "sorted_wrt (\<lambda>a b. suitabilityScore b \<le> suitabilityScore a)
             (snd (predict (\<lambda>c. 0) (load_models ?d) ?f))"
    by (rule c3 [THEN conjunct1])
  have "case snd (predict_v3 (\<lambda>c. 0) (load_models_v3 ?d) ?f) of
          Inl e \<Rightarrow> True
        | Inr rs \<Rightarrow> sorted_wrt (\<lambda>a b. suitabilityScore b \<le> suitabilityScore a) rs"
    by (rule c3 [THEN conjunct2, THEN conjunct1])
  then have b: "sorted_wrt (\<lambda>a b. suitabilityScore b \<le> suitabilityScore a)
                  (projr (snd (predict_v3 (\<lambda>c. 0) (load_models_v3 ?d) ?f)))"
    using r by (cases "snd (predict_v3 (\<lambda>c. 0) (load_models_v3 ?d) ?f)") simp_all
  show ?thesis using l a r b by (intro conjI)
qed

theorem C3_season_order_violated:
  "\<not> season_then_score_order
        (snd (predict (\<lambda>c. 0) (load_models (v3_dir [''CEREALS_WHEAT'', ''CEREALS_MILLETS''] [0, 1] Absent))
                (reading ''Rabi'' 45 90)))"
  by code_simp

text \<open>
  C8. With no trained artifact in the model directory, \<^verbatim>\<open>predict\<close> on the dictionary
  \<^verbatim>\<open>{state: PUNJAB, district: LUDHIANA, season: RABI, avg_temperature: 20, soil_nitrogen: 120}\<close>
  returns, whatever the iteration order of the season's set, only default categories of
  the RABI season, each with the score \<open>50 + 40 * suitability\<close> of its category at 20
  degrees, rounded to one decimal, which lies between 50 and 90.
\<close>

theorem C8_rule_based_rabi:
  "\<forall>r \<in> set (snd (predict h (load_models empty_model_dir) punjab_rabi)).
      cropName r \<in> set [''CEREALS_WHEAT'', ''CEREALS_BARLEY'', ''PULSES'', ''OILSEEDS'',
                         ''VEGETABLES'', ''SPICES'', ''TOBACCO'']
      \<and> suitabilityScore r
          = py_round 1 (50 + calculate_temp_suitability (cropName r) 20 * 40)
      \<and> 50 \<le> suitabilityScore r \<and> suitabilityScore r \<le> 90"
proof
  fix r
  let ?p = "load_models empty_model_dir"
  let ?f = "fst (predict h ?p punjab_rabi)"
  assume "r \<in> set (snd (predict h ?p punjab_rabi))"
  then have r: "r \<in> set (recommend h ?p ?f ''PUNJAB'' ''LUDHIANA'' ''RABI'' 20)"
    by (simp add: snd_predict punjab_rabi_def no_features_def dict_get_Some upper_def char_upper_def)
  have "\<not> use_ml_model ?p"
    by (simp add: load_models_empty rule_based_def)
  then have "set (recommend h ?p ?f ''PUNJAB'' ''LUDHIANA'' ''RABI'' 20)
               \<subseteq> rule_recommendation ?f (dict_get 25 (avg_temperature ?f))
                   ` set (get_crops_for_season h ?p ''PUNJAB'' ''LUDHIANA'' ''RABI'')"
    by (rule recommend_rule_based)
  moreover have "dict_get 25 (avg_temperature ?f) = 20"
    by (simp add: predict_features punjab_rabi_def no_features_def dict_get_Some)
  ultimately obtain c where c: "c \<in> set (get_crops_for_season h ?p ''PUNJAB'' ''LUDHIANA'' ''RABI'')"
    and rc: "r = rule_recommendation ?f 20 c"
    using r by auto
  have n: "cropName r = c" using rc by (simp add: cropName_rule_recommendation)
  have s: "suitabilityScore r = py_round 1 (50 + calculate_temp_suitability c 20 * 40)"
    using rc by (simp add: rule_recommendation_score)
  have "58 \<le> suitabilityScore r \<and> suitabilityScore r \<le> 90"
    unfolding s by (rule rule_score_range)
  then show "cropName r \<in> set [''CEREALS_WHEAT'', ''CEREALS_BARLEY'', ''PULSES'', ''OILSEEDS'',
                                ''VEGETABLES'', ''SPICES'', ''TOBACCO'']
      \<and> suitabilityScore r
          = py_round 1 (50 + calculate_temp_suitability (cropName r) 20 * 40)
      \<and> 50 \<le> suitabilityScore r \<and> suitabilityScore r \<le> 90"
    using c n s unfolding rabi_default_crops by simp
qed

theorem C8_rule_based_rabi_witness:
  "map (\<lambda>r. (cropName r, suitabilityScore r))
     (snd (predict (\<lambda>c. 0) (load_models empty_model_dir) punjab_rabi))
     = [(''CEREALS_WHEAT'', 87.3), (''PULSES'', 87.3), (''VEGETABLES'', 87.3),
        (''TOBACCO'', 85.2), (''CEREALS_BARLEY'', 84.3)]
   \<and> list_all (\<lambda>r. cropName r \<in> set [''CEREALS_WHEAT'', ''CEREALS_BARLEY'', ''PULSES'',
                                         ''OILSEEDS'', ''VEGETABLES'', ''SPICES'', ''TOBACCO'']
                     \<and> 50 \<le> suitabilityScore r \<and> suitabilityScore r \<le> 90)
        (snd (predict (\<lambda>c. 0) (load_models empty_model_dir) punjab_rabi))"
proof -
  have e: "map (\<lambda>r. (cropName r, suitabilityScore r))
     (snd (predict (\<lambda>c. 0) (load_models empty_model_dir) punjab_rabi))
     = [(''CEREALS_WHEAT'', 87.3), (''PULSES'', 87.3), (''VEGETABLES'', 87.3),
        (''TOBACCO'', 85.2), (''CEREALS_BARLEY'', 84.3)]"
    by code_simp
  have a: "list_all (\<lambda>r. cropName r \<in> set [''CEREALS_WHEAT'', ''CEREALS_BARLEY'', ''PULSES'',
                                         ''OILSEEDS'', ''VEGETABLES'', ''SPICES'', ''TOBACCO'']
                     \<and> 50 \<le> suitabilityScore r \<and> suitabilityScore r \<le> 90)
        (snd (predict (\<lambda>c. 0) (load_models empty_model_dir) punjab_rabi))"
    unfolding list_all_iff using C8_rule_based_rabi [of "\<lambda>c. 0"] by blast
  show ?thesis using e a by (intro conjI)
qed

text \<open>
  C1. The returned list has at most five entries and every score lies between 0 and 110
  (\<open>predict_length_and_scores\<close>); in \<^verbatim>\<open>CropPredictorV3\<close> every score lies between 0 and
  100 (\<open>predict_v3_length_and_scores\<close>). A score above 100 does occur: in
  \<^verbatim>\<open>CropPredictor.predict\<close> the season bonus caps the score at 100 and the temperature bonus
  of up to 10 points is added after the cap, with no clamp afterwards. A season-matched
  rice candidate of probability 0.6 at 27.5 degrees is returned with the score 110.
\<close>

theorem C1_score_above_100:
  "map (\<lambda>r. (cropName r, suitabilityScore r))
     (snd (predict (\<lambda>c. 0)
             (load_models (v3_dir [''CEREALS_RICE'', ''CEREALS_WHEAT''] [0.6, 0.4] Absent))
             (reading ''Kharif'' 27.5 60)))
     = [(''CEREALS_RICE'', 110), (''OILSEEDS'', 90), (''SUGARCANE'', 90), (''COTTON'', 89.4),
        (''CEREALS_WHEAT'', 35)]"
  by code_simp

text \<open>
  C4. The estimates from the regressor, from the table of default yields and from the
  handler satisfy the three bounds (\<open>bounded_yield_bounds\<close>, \<open>table_yield_bounds\<close>,
  \<open>safe_default_yield_bounds\<close>). The estimate from a crop profile bounds \<^verbatim>\<open>min\<close> below by 100
  and leaves \<^verbatim>\<open>expected\<close> as the profile's mean times the suitability: with a mean of 3
  (the training script stores production over area) and a deviation of 1, wheat at 17.5
  degrees gets \<^verbatim>\<open>expected\<close> 3, \<^verbatim>\<open>min\<close> 100 and \<^verbatim>\<open>max\<close> 4, from either class.
\<close>

theorem C4_profile_yield_below_bounds:
  "map yieldPrediction
     (take 1 (snd (predict (\<lambda>c. 0)
                (load_models (v3_dir [''CEREALS_WHEAT''] [1]
                   (Stored [(''PUNJAB_LUDHIANA_RABI'',
                             [(''CEREALS_WHEAT'', [(''yield_mean'', 3), (''yield_std'', 1)])])])))
                (reading ''Rabi'' 17.5 60))))
     = [\<lparr>yield_min = 100, yield_max = 4, expected = 3, yield_unit = ''kg/hectare''\<rparr>]
   \<and> predict_yield_v3
        (load_models_v3 (v3_dir [''CEREALS_WHEAT''] [1]
           (Stored [(''PUNJAB_LUDHIANA_RABI'',
                     [(''CEREALS_WHEAT'', [(''yield_mean'', 3), (''yield_std'', 1)])])])))
        ''CEREALS_WHEAT'' (reading ''RABI'' 17.5 60)
     = Inr \<lparr>yield_min = 100, yield_max = 4, expected = 3, yield_unit = ''kg/hectare''\<rparr>"
  by code_simp

text \<open>
  C7. \<^verbatim>\<open>CropPredictor._predict_yield_ml\<close> returns the safe default whenever its body raises
  (\<open>predict_yield_ml_handles\<close>). \<^verbatim>\<open>CropPredictorV3._predict_yield\<close> has no handler, and the
  handler of the loader of that class does not assign \<^verbatim>\<open>crop_profiles\<close>: when the file
  \<^verbatim>\<open>crop_profiles_v3.json\<close> exists and fails to load, the attribute stays unset, the
  estimator raises AttributeError and the exception leaves \<^verbatim>\<open>predict\<close>.
\<close>

theorem C7_v3_yield_exception_propagates:
  "v3_crop_profiles (load_models_v3 (v3_dir [''CEREALS_WHEAT''] [1] Unreadable)) = None
   \<and> predict_yield_v3 (load_models_v3 (v3_dir [''CEREALS_WHEAT''] [1] Unreadable))
        ''CEREALS_WHEAT'' (reading ''RABI'' 17.5 60)
     = Inl AttributeError
   \<and> snd (predict_v3 (\<lambda>c. 0) (load_models_v3 (v3_dir [''CEREALS_WHEAT''] [1] Unreadable))
            (reading ''Rabi'' 17.5 60))
     = Inl AttributeError"
  by code_simp

end
